theory Spec2Isabelle
  imports Main "HOL-Library.Char_ord" "HOL-Library.List_Lexorder" "HOL-Library.Multiset"
begin

section \<open>Data model (src/types/index.ts)\<close>

text \<open>
  A \<open>Task\<close> is a row of the \<open>tasks\<close> table as \<open>mapRowToTask\<close> returns it. The
  columns \<open>completed\<close> and \<open>is_deleted\<close> hold 0 or 1 and are read back through
  \<open>Boolean(...)\<close>, so they are booleans here. Timestamps are the strings the code
  stores (ISO-8601 from \<open>toISOString\<close>, \<open>CURRENT_TIMESTAMP\<close> text in SQL); SQL
  orders them as text, which is the lexicographic order on \<open>string\<close>.
  A nullable column is an \<open>option\<close>.
\<close>

record Task =
  t_id :: string
  t_title :: string
  t_description :: string
  t_completed :: bool
  t_is_deleted :: bool
  t_sync_status :: string
  t_created_at :: string
  t_updated_at :: string
  t_last_synced_at :: "string option"
  t_server_id :: "string option"

text \<open>
  \<open>Partial<Task>\<close>: every field may be absent (\<open>undefined\<close> is \<open>None\<close>). Objects
  that come out of \<open>JSON.parse\<close> or off the wire are of this shape at run time,
  whatever the annotation says.
\<close>

record PartialTask =
  p_id :: "string option"
  p_title :: "string option"
  p_description :: "string option"
  p_completed :: "bool option"
  p_is_deleted :: "bool option"
  p_sync_status :: "string option"
  p_created_at :: "string option"
  p_updated_at :: "string option"
  p_last_synced_at :: "string option"
  p_server_id :: "string option"

datatype operation = Create | Update | Delete

text \<open>
  A row of \<open>sync_queue\<close>. The interface \<open>SyncQueueItem\<close> lists the first seven
  fields; \<open>q_status\<close> and \<open>q_updated_at\<close> are the two further columns the SQL of
  \<open>addToSyncQueue\<close> and \<open>handleSyncError\<close> writes (\<open>SELECT *\<close> returns them too).
\<close>

record SyncQueueItem =
  q_id :: string
  q_task_id :: string
  q_operation :: operation
  q_data :: string
  q_created_at :: string
  q_retry_count :: nat
  q_error_message :: "string option"
  q_status :: "string option"
  q_updated_at :: "string option"

record SyncResult =
  r_success :: nat
  r_failed :: nat
  r_conflicts :: nat
  r_total :: nat

text \<open>One entry of \<open>BatchSyncResponse.results\<close>; an optional field is an \<open>option\<close>.\<close>

record ResponseItem =
  e_localId :: "string option"
  e_success :: "bool option"
  e_conflict :: "bool option"
  e_error :: "string option"
  e_data :: "PartialTask option"
  e_serverData :: "PartialTask option"

record BatchSyncResponse =
  results :: "ResponseItem list"

text \<open>The database: the two tables, each in insertion (rowid) order.\<close>

record Database =
  tasks :: "Task list"
  sync_queue :: "SyncQueueItem list"

text \<open>A thrown JavaScript exception; \<open>message\<close> is its \<open>.message\<close>.\<close>

datatype error = Error string | TypeError string | RangeError string | SyntaxError string

fun message :: "error \<Rightarrow> string" where
  "message (Error m) = m"
| "message (TypeError m) = m"
| "message (RangeError m) = m"
| "message (SyntaxError m) = m"

text \<open>JavaScript truthiness of an optional string and of an optional boolean.\<close>

fun truthy_string :: "string option \<Rightarrow> bool" where
  "truthy_string None = False"
| "truthy_string (Some s) = (s \<noteq> [])"

fun truthy_bool :: "bool option \<Rightarrow> bool" where
  "truthy_bool None = False"
| "truthy_bool (Some b) = b"

text \<open>\<open>x || d\<close> on an optional string.\<close>

definition or_else :: "string option \<Rightarrow> string \<Rightarrow> string" where
  "or_else x d = (if truthy_string x then the x else d)"

section \<open>TaskService (services/taskService.ts)\<close>

text \<open>
  \<open>uuidv4()\<close> and \<open>new Date().toISOString()\<close> are arguments (\<open>taskId\<close>, \<open>now\<close>):
  the functions below are what the methods compute once those two calls have
  returned. Every method returns its result together with the database it leaves.
\<close>

definition createTask :: "PartialTask \<Rightarrow> string \<Rightarrow> string \<Rightarrow> Database \<Rightarrow> Task \<times> Database" where
  "createTask taskData taskId now db =
     (let task = \<lparr> t_id = taskId,
                   t_title = or_else (p_title taskData) [],
                   t_description = or_else (p_description taskData) [],
                   t_completed = False,
                   t_is_deleted = False,
                   t_sync_status = ''pending'',
                   t_created_at = now,
                   t_updated_at = now,
                   t_last_synced_at = None,
                   t_server_id = None \<rparr>
      in (task, db\<lparr>tasks := tasks db @ [task]\<rparr>))"

text \<open>\<open>SELECT * FROM tasks WHERE id = ? AND is_deleted = 0\<close>, first row or null.\<close>

definition getTask :: "string \<Rightarrow> Database \<Rightarrow> Task option" where
  "getTask ident db = List.find (\<lambda>t. t_id t = ident \<and> \<not> t_is_deleted t) (tasks db)"

text \<open>The \<open>SET\<close> list \<open>updateTask\<close> builds, applied to one row.\<close>

definition applyUpdates :: "PartialTask \<Rightarrow> string \<Rightarrow> Task \<Rightarrow> Task" where
  "applyUpdates updates now t =
     (let t1 = (case p_title updates of None \<Rightarrow> t | Some v \<Rightarrow> t\<lparr>t_title := v\<rparr>);
          t2 = (case p_description updates of None \<Rightarrow> t1 | Some v \<Rightarrow> t1\<lparr>t_description := v\<rparr>);
          t3 = (case p_completed updates of None \<Rightarrow> t2 | Some v \<Rightarrow> t2\<lparr>t_completed := v\<rparr>)
      in t3\<lparr>t_updated_at := now, t_sync_status := ''pending''\<rparr>)"

definition updateTask :: "string \<Rightarrow> PartialTask \<Rightarrow> string \<Rightarrow> Database \<Rightarrow> Task option \<times> Database" where
  "updateTask ident updates now db =
     (case getTask ident db of
        None \<Rightarrow> (None, db)
      | Some existingTask \<Rightarrow>
          (let db' = db\<lparr>tasks := map (\<lambda>t. if t_id t = ident then applyUpdates updates now t else t)
                                     (tasks db)\<rparr>
           in (getTask ident db', db')))"

definition deleteTask :: "string \<Rightarrow> string \<Rightarrow> Database \<Rightarrow> bool \<times> Database" where
  "deleteTask ident now db =
     (case getTask ident db of
        None \<Rightarrow> (False, db)
      | Some existingTask \<Rightarrow>
          (True, db\<lparr>tasks := map (\<lambda>t. if t_id t = ident
                                      then t\<lparr>t_is_deleted := True, t_updated_at := now,
                                             t_sync_status := ''pending''\<rparr>
                                      else t) (tasks db)\<rparr>))"

text \<open>
  \<open>SELECT * FROM tasks WHERE is_deleted = 0 ORDER BY created_at DESC\<close>: newest first;
  rows with the same \<open>created_at\<close> stay in table order.
\<close>

definition getAllTasks :: "Database \<Rightarrow> Task list" where
  "getAllTasks db =
     rev (sort_key t_created_at (rev (filter (\<lambda>t. \<not> t_is_deleted t) (tasks db))))"

section \<open>Conflict resolution (services/syncService.ts)\<close>

text \<open>
  \<open>new Date(s).getTime()\<close> is the argument \<open>getTime\<close>: milliseconds since the
  epoch, or \<open>None\<close> for NaN (an unparseable string). \<open>new Date(undefined)\<close> is an
  invalid date, so an absent \<open>updated_at\<close> is NaN as well.
\<close>

definition timeOf :: "(string \<Rightarrow> int option) \<Rightarrow> PartialTask \<Rightarrow> int option" where
  "timeOf getTime t = (case p_updated_at t of None \<Rightarrow> None | Some s \<Rightarrow> getTime s)"

text \<open>\<open>a > b\<close> on numbers: false as soon as one side is NaN.\<close>

fun js_gt :: "int option \<Rightarrow> int option \<Rightarrow> bool" where
  "js_gt (Some a) (Some b) = (a > b)"
| "js_gt _ _ = False"

text \<open>
  \<open>resolveConflict\<close> picks the winner and then builds the log record, whose
  \<open>toISOString()\<close> calls throw a RangeError on an invalid date; the local one is
  evaluated first.
\<close>

definition resolveConflict ::
  "(string \<Rightarrow> int option) \<Rightarrow> PartialTask \<Rightarrow> PartialTask \<Rightarrow> error + PartialTask" where
  "resolveConflict getTime localTask serverTask =
     (let localTime = timeOf getTime localTask;
          serverTime = timeOf getTime serverTask;
          winner = (if js_gt serverTime localTime then serverTask else localTask)
      in if localTime = None then Inl (RangeError ''Invalid time value'')
         else if serverTime = None then Inl (RangeError ''Invalid time value'')
         else Inr winner)"

section \<open>SyncService (services/syncService.ts)\<close>

definition MAX_RETRIES :: nat where
  "MAX_RETRIES = 3"

text \<open>
  What the service reads from outside this repository, as one record:
  \<^item> \<open>transmit\<close>: the call \<open>this.processBatch(batch)\<close> as \<open>sync\<close> sees it, a
    response or a thrown exception (the method is public and is what a test or a
    subclass replaces; the body the source gives it is \<open>processBatch\<close> below);
  \<^item> \<open>JSON_parse\<close>: \<open>JSON.parse(item.data) as Task\<close>, which throws on malformed text;
  \<^item> \<open>Date_getTime\<close>: \<open>new Date(s).getTime()\<close>;
  \<^item> \<open>CURRENT_TIMESTAMP\<close>: the SQL clock, read as one value during a call;
  \<^item> \<open>Date_now\<close>: \<open>new Date().toISOString()\<close>;
  \<^item> \<open>SYNC_BATCH_SIZE\<close>: the constructor's \<open>parseInt(process.env.SYNC_BATCH_SIZE || '10', 10)\<close>,
    as a natural number (NaN and negative values are not represented).
\<close>

record Env =
  transmit :: "SyncQueueItem list \<Rightarrow> error + BatchSyncResponse"
  JSON_parse :: "string \<Rightarrow> error + PartialTask"
  Date_getTime :: "string \<Rightarrow> int option"
  CURRENT_TIMESTAMP :: string
  Date_now :: string
  SYNC_BATCH_SIZE :: nat

text \<open>
  \<open>addToSyncQueue\<close>. \<open>JSON.stringify\<close> is the argument \<open>stringify\<close>, \<open>uuidv4()\<close> the
  argument \<open>newId\<close>, \<open>CURRENT_TIMESTAMP\<close> the argument \<open>now\<close>. The \<open>INSERT\<close> names
  six columns; the others are left NULL.
\<close>

definition addToSyncQueue ::
  "(PartialTask \<Rightarrow> string) \<Rightarrow> string \<Rightarrow> operation \<Rightarrow> PartialTask \<Rightarrow> string \<Rightarrow> string
     \<Rightarrow> Database \<Rightarrow> Database" where
  "addToSyncQueue stringify taskId operation data newId now db =
     (let serializedData = stringify data;
          existing = filter (\<lambda>q. q_task_id q = taskId \<and> q_operation q = operation) (sync_queue db)
      in if length existing > 0
         then db\<lparr>sync_queue :=
                   map (\<lambda>q. if q_task_id q = taskId \<and> q_operation q = operation
                             then q\<lparr>q_data := serializedData, q_retry_count := 0,
                                    q_updated_at := Some now\<rparr>
                             else q) (sync_queue db)\<rparr>
         else db\<lparr>sync_queue := sync_queue db @
                   [\<lparr> q_id = newId, q_task_id = taskId, q_operation = operation,
                      q_data = serializedData, q_created_at = now, q_retry_count = 0,
                      q_error_message = None, q_status = None, q_updated_at = None \<rparr>]\<rparr>)"

text \<open>
  The body the source gives \<open>processBatch\<close>, applied to queue rows as \<open>sync\<close> applies
  it: a row has no \<open>localId\<close> property, so every entry's \<open>localId\<close> is undefined;
  \<open>data\<close> is the row's payload text, which has no \<open>id\<close> property.
\<close>

definition processBatch :: "SyncQueueItem list \<Rightarrow> BatchSyncResponse" where
  "processBatch items =
     \<lparr> results = map (\<lambda>item. \<lparr> e_localId = None, e_success = Some True, e_conflict = None,
                                e_error = None,
                                e_data = Some \<lparr> p_id = None, p_title = None, p_description = None,
                                                p_completed = None, p_is_deleted = None,
                                                p_sync_status = None, p_created_at = None,
                                                p_updated_at = None, p_last_synced_at = None,
                                                p_server_id = None \<rparr>,
                                e_serverData = None \<rparr>) items \<rparr>"

text \<open>\<open>UPDATE tasks SET ... WHERE id = ?\<close> with the \<open>SET\<close> list \<open>updateSyncStatus\<close> builds.\<close>

definition updateSyncStatus ::
  "string \<Rightarrow> string \<Rightarrow> PartialTask option \<Rightarrow> string \<Rightarrow> Database \<Rightarrow> Database" where
  "updateSyncStatus taskId status serverData now db =
     db\<lparr>tasks := map (\<lambda>t. if t_id t = taskId
                          then (let t1 = t\<lparr>t_sync_status := status\<rparr>;
                                    t2 = (case serverData of
                                            None \<Rightarrow> t1
                                          | Some sd \<Rightarrow> if truthy_string (p_id sd)
                                                       then t1\<lparr>t_server_id := p_id sd\<rparr> else t1)
                                in if status = ''synced'' then t2\<lparr>t_last_synced_at := Some now\<rparr>
                                   else t2)
                          else t) (tasks db)\<rparr>"

text \<open>
  \<open>handleSyncError\<close>: \<open>item\<close> is the row as it was drained, \<open>errorMessage\<close> is
  \<open>error.message\<close>.
\<close>

definition handleSyncError :: "SyncQueueItem \<Rightarrow> string \<Rightarrow> string \<Rightarrow> Database \<Rightarrow> Database" where
  "handleSyncError item errorMessage now db =
     (let newRetryCount = q_retry_count item + 1
      in if newRetryCount \<ge> MAX_RETRIES
         then updateSyncStatus (q_task_id item) ''error'' None now
                (db\<lparr>sync_queue :=
                      map (\<lambda>q. if q_id q = q_id item
                                then q\<lparr>q_retry_count := newRetryCount,
                                       q_error_message := Some errorMessage,
                                       q_status := Some ''failed'', q_updated_at := Some now\<rparr>
                                else q) (sync_queue db)\<rparr>)
         else db\<lparr>sync_queue :=
                   map (\<lambda>q. if q_id q = q_id item
                             then q\<lparr>q_retry_count := newRetryCount,
                                    q_error_message := Some errorMessage,
                                    q_updated_at := Some now\<rparr>
                             else q) (sync_queue db)\<rparr>)"

text \<open>\<open>DELETE FROM sync_queue WHERE id = ?\<close>.\<close>

definition deleteQueueItem :: "string \<Rightarrow> Database \<Rightarrow> Database" where
  "deleteQueueItem ident db = db\<lparr>sync_queue := filter (\<lambda>q. q_id q \<noteq> ident) (sync_queue db)\<rparr>"

text \<open>\<open>batchResponse.results.find(r => r.localId === item.task_id)\<close>.\<close>

definition findResponse :: "BatchSyncResponse \<Rightarrow> SyncQueueItem \<Rightarrow> ResponseItem option" where
  "findResponse batchResponse item =
     List.find (\<lambda>r. e_localId r = Some (q_task_id item)) (results batchResponse)"

text \<open>
  The body of the inner \<open>for (const item of batch)\<close> loop of \<open>sync\<close>, for one item.
  Everything that can throw in it (parsing the payload, reading \<open>updated_at\<close> of an
  absent \<open>serverData\<close>, \<open>resolveConflict\<close>) does so before the item changes the
  state, so a throw is \<open>Inl\<close> and the state is the one the item started from.
  \<open>updateTask(resolvedTask.id, ...)\<close> with an undefined id finds no row.
\<close>

definition processItem ::
  "Env \<Rightarrow> BatchSyncResponse \<Rightarrow> SyncQueueItem \<Rightarrow> SyncResult \<times> Database
     \<Rightarrow> error + SyncResult \<times> Database" where
  "processItem env batchResponse item st =
     (let result = fst st; db = snd st; now = CURRENT_TIMESTAMP env
      in case findResponse batchResponse item of
           None \<Rightarrow>
             Inr (result\<lparr>r_failed := r_failed result + 1\<rparr>,
                  handleSyncError item ''Unknown error'' now db)
         | Some responseItem \<Rightarrow>
             if truthy_bool (e_success responseItem) then
               Inr (result\<lparr>r_success := r_success result + 1\<rparr>,
                    deleteQueueItem (q_id item)
                      (updateSyncStatus (q_task_id item) ''synced'' (e_data responseItem) now db))
             else if truthy_bool (e_conflict responseItem) then
               (case JSON_parse env (q_data item) of
                  Inl e \<Rightarrow> Inl e
                | Inr localTask \<Rightarrow>
                    (case e_serverData responseItem of
                       None \<Rightarrow> Inl (TypeError ''Cannot read properties of undefined'')
                     | Some serverTask \<Rightarrow>
                         (case resolveConflict (Date_getTime env) localTask serverTask of
                            Inl e \<Rightarrow> Inl e
                          | Inr resolvedTask \<Rightarrow>
                              (let db1 = (case p_id resolvedTask of
                                            None \<Rightarrow> db
                                          | Some i \<Rightarrow> snd (updateTask i resolvedTask (Date_now env) db));
                                   db2 = updateSyncStatus (q_task_id item) ''synced''
                                           (Some resolvedTask) now db1
                               in Inr (result\<lparr>r_conflicts := r_conflicts result + 1\<rparr>,
                                       deleteQueueItem (q_id item) db2)))))
             else
               Inr (result\<lparr>r_failed := r_failed result + 1\<rparr>,
                    handleSyncError item (or_else (e_error responseItem) ''Unknown error'') now db))"

text \<open>
  The inner loop inside \<open>try\<close>: items in order, stopping at the first throw. It
  returns the exception, if any, with the state reached; what earlier items did stays done.
\<close>

fun tryItems ::
  "Env \<Rightarrow> BatchSyncResponse \<Rightarrow> SyncQueueItem list \<Rightarrow> SyncResult \<times> Database
     \<Rightarrow> error option \<times> (SyncResult \<times> Database)" where
  "tryItems env batchResponse [] st = (None, st)"
| "tryItems env batchResponse (item # rest) st =
     (case processItem env batchResponse item st of
        Inl e \<Rightarrow> (Some e, st)
      | Inr st' \<Rightarrow> tryItems env batchResponse rest st')"

text \<open>The loop of the \<open>catch (batchError)\<close> block.\<close>

fun failItems ::
  "string \<Rightarrow> string \<Rightarrow> SyncQueueItem list \<Rightarrow> SyncResult \<times> Database \<Rightarrow> SyncResult \<times> Database" where
  "failItems errorMessage now [] st = st"
| "failItems errorMessage now (item # rest) st =
     failItems errorMessage now rest
       ((fst st)\<lparr>r_failed := r_failed (fst st) + 1\<rparr>,
        handleSyncError item errorMessage now (snd st))"

text \<open>One iteration of \<open>for (const batch of batches)\<close>: the \<open>try\<close> and its \<open>catch\<close>.\<close>

definition processOneBatch ::
  "Env \<Rightarrow> SyncQueueItem list \<Rightarrow> SyncResult \<times> Database \<Rightarrow> SyncResult \<times> Database" where
  "processOneBatch env batch st =
     (case transmit env batch of
        Inl batchError \<Rightarrow> failItems (message batchError) (CURRENT_TIMESTAMP env) batch st
      | Inr batchResponse \<Rightarrow>
          (case tryItems env batchResponse batch st of
             (None, st') \<Rightarrow> st'
           | (Some batchError, st') \<Rightarrow>
               failItems (message batchError) (CURRENT_TIMESTAMP env) batch st'))"

fun processBatches ::
  "Env \<Rightarrow> SyncQueueItem list list \<Rightarrow> SyncResult \<times> Database \<Rightarrow> SyncResult \<times> Database" where
  "processBatches env [] st = st"
| "processBatches env (batch # rest) st = processBatches env rest (processOneBatch env batch st)"

text \<open>\<open>queueItems.slice(i, j)\<close> for \<open>0 \<le> i \<le> j\<close>.\<close>

definition slice :: "'a list \<Rightarrow> nat \<Rightarrow> nat \<Rightarrow> 'a list" where
  "slice xs i j = take (j - i) (drop i xs)"

text \<open>
  The loop \<open>for (let i = 0; i < queueItems.length; i += SYNC_BATCH_SIZE)\<close>, with
  \<open>batches\<close> as its accumulator. With a batch size of 0 it never ends: the result
  is \<open>None\<close> when the loop does not return.
\<close>

partial_function (option) groupBatches ::
  "nat \<Rightarrow> 'a list \<Rightarrow> nat \<Rightarrow> 'a list list \<Rightarrow> 'a list list option" where
  "groupBatches batchSize queueItems i batches =
     (if i < length queueItems
      then groupBatches batchSize queueItems (i + batchSize)
             (batches @ [slice queueItems i (i + batchSize)])
      else Some batches)"

text \<open>
  \<open>SELECT * FROM sync_queue ORDER BY created_at ASC\<close>: every row, whatever its
  \<open>status\<close> or \<open>retry_count\<close>, ordered by the stored timestamp text. Rows with the
  same \<open>created_at\<close>, whose order SQL leaves open, stay in table order.
\<close>

definition drainQueue :: "Database \<Rightarrow> SyncQueueItem list" where
  "drainQueue db = sort_key q_created_at (sync_queue db)"

text \<open>
  \<open>sync\<close>. The database operations of the model never fail, so the outer
  \<open>catch\<close>, which only logs and rethrows, has nothing to catch; \<open>None\<close> is a pass
  that does not return.
\<close>

definition sync :: "Env \<Rightarrow> Database \<Rightarrow> (SyncResult \<times> Database) option" where
  "sync env db =
     (let queueItems = drainQueue db;
          result = \<lparr> r_success = 0, r_failed = 0, r_conflicts = 0, r_total = length queueItems \<rparr>
      in if length queueItems = 0 then Some (result, db)
         else (case groupBatches (SYNC_BATCH_SIZE env) queueItems 0 [] of
                 None \<Rightarrow> None
               | Some batches \<Rightarrow> Some (processBatches env batches (result, db))))"

section \<open>Reading the queue\<close>

text \<open>The queue items for one (task id, operation) pair.\<close>

definition itemsFor :: "string \<Rightarrow> operation \<Rightarrow> Database \<Rightarrow> SyncQueueItem list" where
  "itemsFor taskId operation db =
     filter (\<lambda>q. q_task_id q = taskId \<and> q_operation q = operation) (sync_queue db)"

text \<open>The invariant of the queue: at most one item per (task id, operation) pair.\<close>

definition queue_unique :: "Database \<Rightarrow> bool" where
  "queue_unique db = distinct (map (\<lambda>q. (q_task_id q, q_operation q)) (sync_queue db))"

text \<open>
  Consecutive batches of at most \<open>n\<close> items each, by recursion on the list: what
  the batching loop of \<open>sync\<close> is shown to compute for a positive batch size.
\<close>

fun consecutiveBatches :: "nat \<Rightarrow> 'a list \<Rightarrow> 'a list list" where
  "consecutiveBatches 0 xs = []"
| "consecutiveBatches (Suc n) [] = []"
| "consecutiveBatches (Suc n) (x # xs) = (x # take n xs) # consecutiveBatches (Suc n) (drop n xs)"

text \<open>The database a pass leaves (the database itself if the pass does not return).\<close>

definition dbAfterSync :: "Env \<Rightarrow> Database \<Rightarrow> Database" where
  "dbAfterSync env db = (case sync env db of None \<Rightarrow> db | Some (result, db') \<Rightarrow> db')"

section \<open>Sample data\<close>

definition noFields :: PartialTask where
  "noFields = \<lparr> p_id = None, p_title = None, p_description = None, p_completed = None,
                p_is_deleted = None, p_sync_status = None, p_created_at = None,
                p_updated_at = None, p_last_synced_at = None, p_server_id = None \<rparr>"

text \<open>Two dates, with the values \<open>Date.prototype.getTime\<close> gives for them.\<close>

definition sample_getTime :: "string \<Rightarrow> int option" where
  "sample_getTime s =
     (if s = ''2024-01-01T00:00:00.000Z'' then Some 1704067200000
      else if s = ''2024-01-02T00:00:00.000Z'' then Some 1704153600000
      else None)"

definition localVersion :: PartialTask where
  "localVersion = noFields\<lparr>p_id := Some ''T1'', p_title := Some ''local'',
                           p_updated_at := Some ''2024-01-01T00:00:00.000Z''\<rparr>"

definition remoteVersion :: PartialTask where
  "remoteVersion = noFields\<lparr>p_id := Some ''T1'', p_title := Some ''remote'',
                            p_updated_at := Some ''2024-01-01T00:00:00.000Z''\<rparr>"

definition remoteLater :: PartialTask where
  "remoteLater = noFields\<lparr>p_id := Some ''T1'', p_title := Some ''remote'',
                          p_updated_at := Some ''2024-01-02T00:00:00.000Z''\<rparr>"

definition emptyDb :: Database where
  "emptyDb = \<lparr> tasks = [], sync_queue = [] \<rparr>"

text \<open>Two tasks created one after the other.\<close>

definition twoTasks :: Database where
  "twoTasks =
     snd (createTask (noFields\<lparr>p_title := Some ''B''\<rparr>) ''T2'' ''2024-01-02T00:00:00.000Z''
       (snd (createTask (noFields\<lparr>p_title := Some ''A''\<rparr>) ''T1'' ''2024-01-01T00:00:00.000Z''
          emptyDb)))"

definition afterDelete :: Database where
  "afterDelete = snd (deleteTask ''T1'' ''2024-01-03T00:00:00.000Z'' twoTasks)"

text \<open>A serializer that writes the title only.\<close>

definition sample_stringify :: "PartialTask \<Rightarrow> string" where
  "sample_stringify d = ''title='' @ or_else (p_title d) []"

text \<open>A queue item for task \<open>t\<close>, enqueued at \<open>at\<close>, that has failed \<open>n\<close> times.\<close>

definition queuedUpdate :: "string \<Rightarrow> string \<Rightarrow> string \<Rightarrow> nat \<Rightarrow> SyncQueueItem" where
  "queuedUpdate ident t at n =
     \<lparr> q_id = ident, q_task_id = t, q_operation = Update, q_data = ''title=A'',
       q_created_at = at, q_retry_count = n, q_error_message = None, q_status = None,
       q_updated_at = None \<rparr>"

text \<open>A transmitter whose exchange fails as a whole, and one that acknowledges every item.\<close>

definition offlineEnv :: Env where
  "offlineEnv =
     \<lparr> transmit = (\<lambda>batch. Inl (Error ''Network Error'')),
       JSON_parse = (\<lambda>s. Inl (SyntaxError ''Unexpected token'')),
       Date_getTime = sample_getTime,
       CURRENT_TIMESTAMP = ''2024-01-05 00:00:00'',
       Date_now = ''2024-01-05T00:00:00.000Z'',
       SYNC_BATCH_SIZE = 10 \<rparr>"

definition acknowledge :: "SyncQueueItem \<Rightarrow> ResponseItem" where
  "acknowledge item =
     \<lparr> e_localId = Some (q_task_id item), e_success = Some True, e_conflict = None,
       e_error = None, e_data = Some (noFields\<lparr>p_id := Some (''srv-'' @ q_task_id item)\<rparr>),
       e_serverData = None \<rparr>"

definition onlineEnv :: Env where
  "onlineEnv = offlineEnv\<lparr>transmit := (\<lambda>batch. Inr \<lparr> results = map acknowledge batch \<rparr>)\<rparr>"

text \<open>Task \<open>T1\<close> with one queued update that has already failed twice.\<close>

definition failedTwice :: Database where
  "failedTwice =
     \<lparr> tasks = [fst (createTask (noFields\<lparr>p_title := Some ''A''\<rparr>) ''T1''
                       ''2024-01-01T00:00:00.000Z'' emptyDb)],
       sync_queue = [queuedUpdate ''Q1'' ''T1'' ''2024-01-01 00:00:00'' 2] \<rparr>"

text \<open>Task \<open>T1\<close> as \<open>POST /tasks\<close> leaves it: created, and enqueued as a \<open>create\<close>.\<close>

definition pendingCreate :: Database where
  "pendingCreate =
     \<lparr> tasks = [fst (createTask (noFields\<lparr>p_title := Some ''A''\<rparr>) ''T1''
                       ''2024-01-01T00:00:00.000Z'' emptyDb)],
       sync_queue = [(queuedUpdate ''Q1'' ''T1'' ''2024-01-01 00:00:00'' 0)
                       \<lparr>q_operation := Create\<rparr>] \<rparr>"

text \<open>Three items enqueued at increasing times, and twenty-five enqueued at once.\<close>

definition threeQueued :: Database where
  "threeQueued =
     \<lparr> tasks = [],
       sync_queue = [queuedUpdate ''Q1'' ''T1'' ''2024-01-01 00:00:01'' 0,
                     queuedUpdate ''Q2'' ''T2'' ''2024-01-01 00:00:02'' 0,
                     queuedUpdate ''Q3'' ''T3'' ''2024-01-01 00:00:03'' 0] \<rparr>"

definition manyQueued :: Database where
  "manyQueued =
     \<lparr> tasks = [],
       sync_queue = map (\<lambda>k. queuedUpdate (replicate k CHR ''q'') (replicate k CHR ''t'')
                                ''2024-01-01 00:00:01'' 0) [0..<25] \<rparr>"

text \<open>The service as the source ships it: \<open>sync\<close> calls the class's own \<open>processBatch\<close>.\<close>

definition shippedEnv :: Env where
  "shippedEnv = offlineEnv\<lparr>transmit := (\<lambda>batch. Inr (processBatch batch))\<rparr>"

text \<open>
  Task \<open>T1\<close> with three queue items enqueued at increasing times: its \<open>create\<close>,
  an update of another task, and an update of \<open>T1\<close> that has already failed twice.
  The transmitter acknowledges a batch unless it holds \<open>Q3\<close>; a batch with \<open>Q3\<close>
  fails as a whole. Batches are of size 2.
\<close>

definition orderedDb :: Database where
  "orderedDb =
     \<lparr> tasks = [fst (createTask (noFields\<lparr>p_title := Some ''A''\<rparr>) ''T1''
                       ''2024-01-01T00:00:00.000Z'' emptyDb)],
       sync_queue = [(queuedUpdate ''Q1'' ''T1'' ''2024-01-01 00:00:01'' 0)
                       \<lparr>q_operation := Create\<rparr>,
                     queuedUpdate ''Q2'' ''T2'' ''2024-01-01 00:00:02'' 0,
                     queuedUpdate ''Q3'' ''T1'' ''2024-01-01 00:00:03'' 2] \<rparr>"

definition orderEnv :: Env where
  "orderEnv =
     offlineEnv\<lparr>transmit := (\<lambda>batch. if ''Q3'' \<in> set (map q_id batch)
                                         then Inl (Error ''Network Error'')
                                         else Inr \<lparr> results = map acknowledge batch \<rparr>),
                SYNC_BATCH_SIZE := 2\<rparr>"

text \<open>
  Tasks \<open>T1\<close> and \<open>T2\<close> with two queue items that go out in one batch: an update of
  \<open>T1\<close> that has already failed twice, and the delete of \<open>T2\<close>, whose payload is
  the empty object (\<open>addToSyncQueue(id, 'delete', {})\<close>). The transmitter reports
  success for \<open>T1\<close> and a conflict for \<open>T2\<close>; the payload \<open>{}\<close> parses to an object
  without fields.
\<close>

definition conflictEntry :: "SyncQueueItem \<Rightarrow> ResponseItem" where
  "conflictEntry item =
     \<lparr> e_localId = Some (q_task_id item), e_success = None, e_conflict = Some True,
       e_error = None, e_data = None, e_serverData = Some remoteVersion \<rparr>"

definition mixedDb :: Database where
  "mixedDb =
     \<lparr> tasks = tasks twoTasks,
       sync_queue = [queuedUpdate ''Q1'' ''T1'' ''2024-01-01 00:00:01'' 2,
                     (queuedUpdate ''Q2'' ''T2'' ''2024-01-01 00:00:02'' 0)
                       \<lparr>q_operation := Delete, q_data := ''{}''\<rparr>] \<rparr>"

definition mixedEnv :: Env where
  "mixedEnv =
     offlineEnv\<lparr>transmit := (\<lambda>batch. Inr \<lparr> results =
                                 map (\<lambda>item. if q_operation item = Delete then conflictEntry item
                                             else acknowledge item) batch \<rparr>),
                JSON_parse := (\<lambda>s. if s = ''{}'' then Inr noFields
                                    else Inl (SyntaxError ''Unexpected token''))\<rparr>"

section \<open>Conflict resolution\<close>

text \<open>
  C1 (as amended). For task versions whose \<open>updated_at\<close> both parse, \<open>resolveConflict\<close>
  is a function of its arguments that returns the server version when the local
  timestamp is strictly earlier than the server's, and the local version otherwise:
  when the local timestamp is strictly later, and also when the two are equal.
\<close>

theorem resolveConflict_last_write_wins:
  assumes "timeOf getTime localTask = Some a" and "timeOf getTime serverTask = Some b"
  shows "resolveConflict getTime localTask serverTask =
           Inr (if a < b then serverTask else localTask)"
  using assms by (simp add: resolveConflict_def)

theorem resolveConflict_last_write_wins_witness:
  "resolveConflict sample_getTime localVersion remoteVersion = Inr localVersion \<and>
   resolveConflict sample_getTime localVersion remoteLater = Inr remoteLater \<and>
   resolveConflict sample_getTime remoteLater localVersion = Inr remoteLater"
proof -
  have l: "timeOf sample_getTime localVersion = Some 1704067200000"
    by (simp add: timeOf_def sample_getTime_def localVersion_def noFields_def)
  have r: "timeOf sample_getTime remoteVersion = Some 1704067200000"
    by (simp add: timeOf_def sample_getTime_def remoteVersion_def noFields_def)
  have r2: "timeOf sample_getTime remoteLater = Some 1704153600000"
    by (simp add: timeOf_def sample_getTime_def remoteLater_def noFields_def)
  show ?thesis
    using resolveConflict_last_write_wins [OF l r] resolveConflict_last_write_wins [OF l r2]
      resolveConflict_last_write_wins [OF r2 l]
    by simp
qed

text \<open>
  C1 as stated fails on a tie: two versions with the same \<open>updated_at\<close> and different
  titles; the result is the local version, not the remote one.
\<close>

theorem resolveConflict_tie_counterexample:
  "timeOf sample_getTime localVersion = timeOf sample_getTime remoteVersion \<and>
   resolveConflict sample_getTime localVersion remoteVersion = Inr localVersion \<and>
   resolveConflict sample_getTime localVersion remoteVersion \<noteq> Inr remoteVersion"
  by (simp add: resolveConflict_def timeOf_def sample_getTime_def localVersion_def
      remoteVersion_def noFields_def)

section \<open>TaskService\<close>

text \<open>
  C9. Whatever \<open>taskData\<close> holds, the task \<open>createTask\<close> returns has
  \<open>completed = false\<close>, \<open>is_deleted = false\<close>, \<open>sync_status = 'pending'\<close>,
  \<open>last_synced_at = null\<close>, \<open>server_id = null\<close> and \<open>created_at = updated_at\<close>; its id
  is the generated one; the row appended to \<open>tasks\<close> is that task; and the call
  computes the same as on \<open>taskData\<close> with every field but \<open>title\<close> and
  \<open>description\<close> removed, so a supplied \<open>completed\<close> or \<open>id\<close> is ignored.
\<close>

theorem createTask_initial_state:
  "t_completed (fst (createTask taskData taskId now db)) = False \<and>
   t_is_deleted (fst (createTask taskData taskId now db)) = False \<and>
   t_sync_status (fst (createTask taskData taskId now db)) = ''pending'' \<and>
   t_last_synced_at (fst (createTask taskData taskId now db)) = None \<and>
   t_server_id (fst (createTask taskData taskId now db)) = None \<and>
   t_created_at (fst (createTask taskData taskId now db)) =
     t_updated_at (fst (createTask taskData taskId now db)) \<and>
   t_id (fst (createTask taskData taskId now db)) = taskId \<and>
   tasks (snd (createTask taskData taskId now db)) =
     tasks db @ [fst (createTask taskData taskId now db)] \<and>
   createTask taskData taskId now db =
     createTask (noFields\<lparr>p_title := p_title taskData, p_description := p_description taskData\<rparr>)
       taskId now db"
  by (simp add: createTask_def Let_def noFields_def)

lemma find_map_None:
  "(\<And>x. x \<in> set xs \<Longrightarrow> \<not> P (f x)) \<Longrightarrow> List.find P (map f xs) = None"
  by (induction xs) simp_all

lemma getTask_None_iff:
  "getTask ident db = None \<longleftrightarrow> (\<forall>t \<in> set (tasks db). t_id t = ident \<longrightarrow> t_is_deleted t)"
  by (auto simp: getTask_def find_None_iff)

lemma deleteTask_True:
  assumes "deleteTask ident now db = (True, db')"
  shows "db' = db\<lparr>tasks := map (\<lambda>t. if t_id t = ident
                                      then t\<lparr>t_is_deleted := True, t_updated_at := now,
                                             t_sync_status := ''pending''\<rparr>
                                      else t) (tasks db)\<rparr>"
proof (cases "getTask ident db")
  case None
  with assms show ?thesis by (simp add: deleteTask_def)
next
  case (Some a)
  with assms show ?thesis by (simp add: deleteTask_def)
qed

lemma getTask_after_delete:
  "getTask ident (db\<lparr>tasks := map (\<lambda>t. if t_id t = ident
                                      then t\<lparr>t_is_deleted := True, t_updated_at := now,
                                             t_sync_status := ''pending''\<rparr>
                                      else t) (tasks db)\<rparr>) = None"
  by (simp add: getTask_def find_map_None)

lemma set_getAllTasks:
  "set (getAllTasks db) = {t \<in> set (tasks db). \<not> t_is_deleted t}"
  by (auto simp: getAllTasks_def)

text \<open>
  C10. After \<open>deleteTask(id)\<close> has returned true, \<open>getTask(id)\<close> returns null,
  \<open>getAllTasks\<close> has no task with that id, \<open>updateTask(id, ...)\<close> returns null and
  changes nothing, and a second \<open>deleteTask(id)\<close> returns false and changes nothing.
\<close>

theorem deleteTask_hides_task:
  assumes "deleteTask ident now db = (True, db')"
  shows "getTask ident db' = None \<and>
         ident \<notin> set (map t_id (getAllTasks db')) \<and>
         updateTask ident updates now' db' = (None, db') \<and>
         deleteTask ident now'' db' = (False, db')"
proof -
  have none: "getTask ident db' = None"
    using deleteTask_True [OF assms] getTask_after_delete by simp
  then have "\<forall>t \<in> set (tasks db'). t_id t = ident \<longrightarrow> t_is_deleted t"
    by (simp add: getTask_None_iff)
  then have "ident \<notin> set (map t_id (getAllTasks db'))"
    by (auto simp: set_getAllTasks)
  with none show ?thesis
    by (simp add: updateTask_def deleteTask_def)
qed

theorem deleteTask_hides_task_witness:
  "deleteTask ''T1'' ''2024-01-03T00:00:00.000Z'' twoTasks = (True, afterDelete) \<and>
   getTask ''T1'' twoTasks \<noteq> None \<and>
   getTask ''T1'' afterDelete = None \<and>
   ''T1'' \<notin> set (map t_id (getAllTasks afterDelete)) \<and>
   updateTask ''T1'' (noFields\<lparr>p_title := Some ''C''\<rparr>) ''2024-01-04T00:00:00.000Z'' afterDelete
     = (None, afterDelete) \<and>
   deleteTask ''T1'' ''2024-01-04T00:00:00.000Z'' afterDelete = (False, afterDelete)"
proof -
  have g: "getTask ''T1'' twoTasks \<noteq> None"
    by (simp add: twoTasks_def createTask_def emptyDb_def getTask_def noFields_def or_else_def
        Let_def)
  then have h: "deleteTask ''T1'' ''2024-01-03T00:00:00.000Z'' twoTasks = (True, afterDelete)"
    by (auto simp: afterDelete_def deleteTask_def)
  show ?thesis
    using g h deleteTask_hides_task [OF h] by simp
qed

section \<open>The sync queue\<close>

lemma distinct_key_filter_le1:
  "distinct (map f xs) \<Longrightarrow> length (filter (\<lambda>x. f x = k) xs) \<le> 1"
proof (induction xs)
  case Nil
  then show ?case by simp
next
  case (Cons x xs)
  show ?case
  proof (cases "f x = k")
    case True
    from Cons.prems have "f x \<notin> f ` set xs" by simp
    with True have "\<forall>y \<in> set xs. f y \<noteq> k" by blast
    then have "filter (\<lambda>x. f x = k) xs = []"
      by (simp add: filter_empty_conv)
    with True show ?thesis by simp
  next
    case False
    with Cons show ?thesis by simp
  qed
qed

lemma itemsFor_le1: "queue_unique db \<Longrightarrow> length (itemsFor taskId operation db) \<le> 1"
proof -
  assume "queue_unique db"
  then have "length (filter (\<lambda>q. (q_task_id q, q_operation q) = (taskId, operation)) (sync_queue db)) \<le> 1"
    unfolding queue_unique_def by (rule distinct_key_filter_le1)
  then show ?thesis by (simp add: itemsFor_def)
qed

lemma filter_map_if:
  "(\<And>x. P x \<Longrightarrow> P (u x)) \<Longrightarrow>
     filter P (map (\<lambda>q. if P q then u q else q) xs) = map u (filter P xs)"
  by (induction xs) auto

lemma map_key_map_if:
  "(\<And>x. g (u x) = g x) \<Longrightarrow> map g (map (\<lambda>q. if P q then u q else q) xs) = map g xs"
  by (induction xs) auto

lemma itemsFor_addToSyncQueue:
  "itemsFor taskId operation (addToSyncQueue stringify taskId operation data newId now db) =
     (if itemsFor taskId operation db = []
      then [\<lparr> q_id = newId, q_task_id = taskId, q_operation = operation,
              q_data = stringify data, q_created_at = now, q_retry_count = 0,
              q_error_message = None, q_status = None, q_updated_at = None \<rparr>]
      else map (\<lambda>q. q\<lparr>q_data := stringify data, q_retry_count := 0, q_updated_at := Some now\<rparr>)
             (itemsFor taskId operation db))"
  by (simp add: itemsFor_def addToSyncQueue_def Let_def filter_map_if)

lemma queue_unique_addToSyncQueue:
  assumes "queue_unique db"
  shows "queue_unique (addToSyncQueue stringify taskId operation data newId now db)"
proof (cases "itemsFor taskId operation db = []")
  case True
  then have "(taskId, operation) \<notin> set (map (\<lambda>q. (q_task_id q, q_operation q)) (sync_queue db))"
    by (auto simp: itemsFor_def filter_empty_conv)
  with assms True show ?thesis
    by (simp add: queue_unique_def addToSyncQueue_def Let_def itemsFor_def)
next
  case False
  have eq: "map (\<lambda>q. (q_task_id q, q_operation q))
          (map (\<lambda>q. if q_task_id q = taskId \<and> q_operation q = operation
                     then q\<lparr>q_data := stringify data, q_retry_count := 0, q_updated_at := Some now\<rparr>
                     else q) (sync_queue db))
        = map (\<lambda>q. (q_task_id q, q_operation q)) (sync_queue db)"
    by (rule map_key_map_if) simp
  have q: "sync_queue (addToSyncQueue stringify taskId operation data newId now db) =
             map (\<lambda>q. if q_task_id q = taskId \<and> q_operation q = operation
                     then q\<lparr>q_data := stringify data, q_retry_count := 0, q_updated_at := Some now\<rparr>
                     else q) (sync_queue db)"
    using False by (simp add: addToSyncQueue_def Let_def itemsFor_def)
  show ?thesis
    unfolding queue_unique_def q eq using assms by (simp add: queue_unique_def)
qed

text \<open>
  C3. From a queue that holds at most one item per (task id, operation) pair,
  which is what the empty queue does and what every operation of the service keeps,
  two calls of \<open>addToSyncQueue\<close> with the same task id and operation leave exactly
  one item for that pair; its payload is the second call's serialized argument and
  its \<open>retry_count\<close> is 0; and after each call the queue still holds at most one
  item per pair, so no duplicate is created.
\<close>

theorem addToSyncQueue_idempotent_upsert:
  assumes "queue_unique db"
  shows "\<exists>item.
           itemsFor taskId operation
             (addToSyncQueue stringify taskId operation data2 id2 now2
               (addToSyncQueue stringify taskId operation data1 id1 now1 db)) = [item] \<and>
           q_data item = stringify data2 \<and> q_retry_count item = 0 \<and>
           queue_unique (addToSyncQueue stringify taskId operation data1 id1 now1 db) \<and>
           queue_unique (addToSyncQueue stringify taskId operation data2 id2 now2
               (addToSyncQueue stringify taskId operation data1 id1 now1 db))"
proof -
  let ?db1 = "addToSyncQueue stringify taskId operation data1 id1 now1 db"
  let ?db2 = "addToSyncQueue stringify taskId operation data2 id2 now2 ?db1"
  have u1: "queue_unique ?db1" using assms by (rule queue_unique_addToSyncQueue)
  then have u2: "queue_unique ?db2" by (rule queue_unique_addToSyncQueue)
  have ne: "itemsFor taskId operation ?db1 \<noteq> []"
    by (simp add: itemsFor_addToSyncQueue)
  have "length (itemsFor taskId operation ?db1) \<le> 1"
    using u1 by (rule itemsFor_le1)
  with ne obtain x where x: "itemsFor taskId operation ?db1 = [x]"
    by (cases "itemsFor taskId operation ?db1") auto
  have "itemsFor taskId operation ?db2 =
          [x\<lparr>q_data := stringify data2, q_retry_count := 0, q_updated_at := Some now2\<rparr>]"
    by (simp add: itemsFor_addToSyncQueue [of taskId operation stringify data2 id2 now2 ?db1] x)
  with u1 u2 show ?thesis by simp
qed

theorem addToSyncQueue_idempotent_upsert_witness:
  "queue_unique emptyDb \<and>
   (\<exists>item. itemsFor ''T1'' Update
      (addToSyncQueue sample_stringify ''T1'' Update (noFields\<lparr>p_title := Some ''B''\<rparr>) ''Q2''
         ''2024-01-01 00:00:02''
         (addToSyncQueue sample_stringify ''T1'' Update (noFields\<lparr>p_title := Some ''A''\<rparr>) ''Q1''
            ''2024-01-01 00:00:01'' emptyDb)) = [item] \<and>
      q_id item = ''Q1'' \<and> q_data item = ''title=B'' \<and> q_retry_count item = 0)"
proof -
  have u: "queue_unique emptyDb"
    by (simp add: queue_unique_def emptyDb_def)
  have "sample_stringify (noFields\<lparr>p_title := Some ''B''\<rparr>) = ''title=B''"
    by (simp add: sample_stringify_def or_else_def noFields_def)
  moreover have "\<forall>item. itemsFor ''T1'' Update
      (addToSyncQueue sample_stringify ''T1'' Update (noFields\<lparr>p_title := Some ''B''\<rparr>) ''Q2''
         ''2024-01-01 00:00:02''
         (addToSyncQueue sample_stringify ''T1'' Update (noFields\<lparr>p_title := Some ''A''\<rparr>) ''Q1''
            ''2024-01-01 00:00:01'' emptyDb)) = [item] \<longrightarrow> q_id item = ''Q1''"
    by (simp add: itemsFor_def addToSyncQueue_def emptyDb_def Let_def)
  ultimately show ?thesis
    using u addToSyncQueue_idempotent_upsert [OF u, where taskId = "''T1''" and operation = Update
        and stringify = sample_stringify
        and ?data2.0 = "noFields\<lparr>p_title := Some ''B''\<rparr>" and ?id2.0 = "''Q2''"
        and ?now2.0 = "''2024-01-01 00:00:02''"
        and ?data1.0 = "noFields\<lparr>p_title := Some ''A''\<rparr>" and ?id1.0 = "''Q1''"
        and ?now1.0 = "''2024-01-01 00:00:01''"]
    by auto
qed

section \<open>Batching\<close>

lemma drop_consecutive:
  "0 < bs \<Longrightarrow> i < length xs \<Longrightarrow>
     consecutiveBatches bs (drop i xs) = slice xs i (i + bs) # consecutiveBatches bs (drop (i + bs) xs)"
proof -
  assume bs: "0 < bs" and i: "i < length xs"
  then obtain n where n: "bs = Suc n" by (cases bs) auto
  from i obtain y ys where d: "drop i xs = y # ys" by (cases "drop i xs") auto
  have "drop (i + bs) xs = drop bs (drop i xs)" by (simp add: add.commute)
  then have d2: "drop (i + bs) xs = drop n ys" by (simp add: d n)
  have "slice xs i (i + bs) = y # take n ys" by (simp add: slice_def d n)
  with d d2 n show ?thesis by simp
qed

lemma groupBatches_eq:
  "0 < bs \<Longrightarrow> groupBatches bs xs i acc = Some (acc @ consecutiveBatches bs (drop i xs))"
proof (induction "length xs - i" arbitrary: i acc rule: less_induct)
  case less
  show ?case
  proof (cases "i < length xs")
    case True
    with less.prems have "length xs - (i + bs) < length xs - i" by arith
    from less.hyps [OF this less.prems]
    have "groupBatches bs xs (i + bs) (acc @ [slice xs i (i + bs)]) =
            Some ((acc @ [slice xs i (i + bs)]) @ consecutiveBatches bs (drop (i + bs) xs))" .
    with True less.prems show ?thesis
      by (subst groupBatches.simps) (simp add: drop_consecutive)
  next
    case False
    then have "drop i xs = []" by simp
    moreover obtain n where "bs = Suc n" using less.prems by (cases bs) auto
    ultimately show ?thesis using False
      by (subst groupBatches.simps) simp
  qed
qed

lemma concat_consecutiveBatches: "0 < bs \<Longrightarrow> concat (consecutiveBatches bs xs) = xs"
  by (induction bs xs rule: consecutiveBatches.induct) simp_all

lemma consecutiveBatches_sizes:
  "b \<in> set (consecutiveBatches bs xs) \<Longrightarrow> length b \<le> bs \<and> b \<noteq> []"
  by (induction bs xs rule: consecutiveBatches.induct) auto

lemma length_consecutiveBatches:
  "0 < bs \<Longrightarrow> length (consecutiveBatches bs xs) = (length xs + bs - 1) div bs"
proof (induction bs xs rule: consecutiveBatches.induct)
  case (1 xs)
  then show ?case by simp
next
  case (2 n)
  then show ?case by simp
next
  case (3 n x xs)
  show ?case
  proof (cases "n \<le> length xs")
    case True
    then have "length xs = (length xs - n) + n" by simp
    then have "(Suc (length xs) + Suc n - 1) div Suc n = Suc ((length xs - n + Suc n - 1) div Suc n)"
      by (metis Suc_eq_plus1 add_Suc_right add_Suc_shift diff_Suc_1 div_add_self2 nat.simps(3) add.commute)
    with 3 show ?thesis by simp
  next
    case False
    have "Suc (length xs + n) div Suc n = 1"
      by (rule div_nat_eqI) (use False in simp_all)
    with False show ?thesis using 3 by simp
  qed
qed

section \<open>The sync pass\<close>

lemma handleSyncError_queue:
  "sync_queue (handleSyncError item msg now db) =
     map (\<lambda>q. if q_id q = q_id item
               then q\<lparr>q_retry_count := q_retry_count item + 1, q_error_message := Some msg,
                      q_status := (if q_retry_count item + 1 \<ge> MAX_RETRIES then Some ''failed''
                                   else q_status q),
                      q_updated_at := Some now\<rparr>
               else q) (sync_queue db)"
  by (simp add: handleSyncError_def Let_def updateSyncStatus_def)

lemma handleSyncError_tasks:
  "tasks (handleSyncError item msg now db) =
     (if q_retry_count item + 1 \<ge> MAX_RETRIES
      then map (\<lambda>t. if t_id t = q_task_id item then t\<lparr>t_sync_status := ''error''\<rparr> else t) (tasks db)
      else tasks db)"
  by (simp add: handleSyncError_def Let_def updateSyncStatus_def)

lemma failItems_eq:
  "failItems msg now items st =
     ((fst st)\<lparr>r_failed := r_failed (fst st) + length items\<rparr>,
      foldl (\<lambda>d item. handleSyncError item msg now d) (snd st) items)"
  by (induction items arbitrary: st) simp_all

lemma processItem_total:
  "processItem env resp item st = Inr st' \<Longrightarrow> r_total (fst st') = r_total (fst st)"
  by (auto simp: processItem_def Let_def split: option.splits sum.splits if_splits)

lemma tryItems_total:
  "r_total (fst (snd (tryItems env resp items st))) = r_total (fst st)"
proof (induction items arbitrary: st)
  case Nil
  then show ?case by simp
next
  case (Cons item rest)
  show ?case
  proof (cases "processItem env resp item st")
    case (Inl e)
    then show ?thesis by simp
  next
    case (Inr st')
    with Cons.IH [of st'] processItem_total [OF Inr] show ?thesis by simp
  qed
qed

lemma processOneBatch_total:
  "r_total (fst (processOneBatch env batch st)) = r_total (fst st)"
proof (cases "transmit env batch")
  case (Inl e)
  then show ?thesis by (simp add: processOneBatch_def failItems_eq)
next
  case (Inr resp)
  obtain err st' where t: "tryItems env resp batch st = (err, st')"
    by (cases "tryItems env resp batch st")
  then have "r_total (fst st') = r_total (fst st)"
    using tryItems_total [of env resp batch st] by simp
  with Inr t show ?thesis
    by (cases err) (simp_all add: processOneBatch_def failItems_eq)
qed

lemma processBatches_total:
  "r_total (fst (processBatches env batches st)) = r_total (fst st)"
  by (induction batches arbitrary: st) (simp_all add: processOneBatch_total)

lemma sync_eq:
  assumes "0 < SYNC_BATCH_SIZE env"
  shows "sync env db =
           Some (processBatches env (consecutiveBatches (SYNC_BATCH_SIZE env) (drainQueue db))
                   (\<lparr> r_success = 0, r_failed = 0, r_conflicts = 0,
                      r_total = length (drainQueue db) \<rparr>, db))"
proof (cases "drainQueue db = []")
  case True
  obtain n where "SYNC_BATCH_SIZE env = Suc n" using assms by (cases "SYNC_BATCH_SIZE env") auto
  with True show ?thesis by (simp add: sync_def)
next
  case False
  with assms show ?thesis by (simp add: sync_def Let_def groupBatches_eq)
qed

lemma length_drainQueue: "length (drainQueue db) = length (sync_queue db)"
  by (simp add: drainQueue_def)

text \<open>
  C4. For every database and every positive batch size, \<open>sync\<close> returns, and the
  \<open>total\<close> of its result is the number of queue items drained at the start of the
  pass (every row of \<open>sync_queue\<close>), whatever the batch size; the batching loop
  returns \<open>\<lceil>n / size\<rceil>\<close> batches for \<open>n\<close> drained items, so 25 items with batch
  size 10 make 3 batches and \<open>total = 25\<close>.
\<close>

theorem sync_total_is_drained_count:
  assumes "0 < SYNC_BATCH_SIZE env"
  shows "\<exists>result db' batches.
           sync env db = Some (result, db') \<and>
           r_total result = length (drainQueue db) \<and>
           length (drainQueue db) = length (sync_queue db) \<and>
           groupBatches (SYNC_BATCH_SIZE env) (drainQueue db) 0 [] = Some batches \<and>
           length batches = (length (drainQueue db) + SYNC_BATCH_SIZE env - 1) div SYNC_BATCH_SIZE env"
proof -
  let ?bs = "SYNC_BATCH_SIZE env"
  let ?init = "\<lparr> r_success = 0, r_failed = 0, r_conflicts = 0, r_total = length (drainQueue db) \<rparr>"
  let ?out = "processBatches env (consecutiveBatches ?bs (drainQueue db)) (?init, db)"
  have "sync env db = Some (fst ?out, snd ?out)"
    using sync_eq [OF assms, of db] by simp
  moreover have "r_total (fst ?out) = length (drainQueue db)"
    by (simp add: processBatches_total)
  moreover have "groupBatches ?bs (drainQueue db) 0 [] = Some (consecutiveBatches ?bs (drainQueue db))"
    using assms by (simp add: groupBatches_eq)
  moreover have "length (consecutiveBatches ?bs (drainQueue db)) =
                   (length (drainQueue db) + ?bs - 1) div ?bs"
    using assms by (rule length_consecutiveBatches)
  ultimately show ?thesis
    using length_drainQueue by blast
qed

theorem sync_total_is_drained_count_witness:
  "\<exists>result db' batches.
     sync offlineEnv manyQueued = Some (result, db') \<and> r_total result = 25 \<and>
     groupBatches 10 (drainQueue manyQueued) 0 [] = Some batches \<and> length batches = 3"
proof -
  have bs: "0 < SYNC_BATCH_SIZE offlineEnv" by (simp add: offlineEnv_def)
  have n: "length (drainQueue manyQueued) = 25"
    by (simp add: length_drainQueue manyQueued_def)
  have b: "SYNC_BATCH_SIZE offlineEnv = 10" by (simp add: offlineEnv_def)
  show ?thesis
    using sync_total_is_drained_count [OF bs, of manyQueued] unfolding n b by auto
qed

lemma failItems_foldl:
  "failItems msg now items st =
     foldl (\<lambda>st item. ((fst st)\<lparr>r_failed := r_failed (fst st) + 1\<rparr>,
                         handleSyncError item msg now (snd st))) st items"
  by (induction items arbitrary: st) simp_all

lemma foldl_tryStep_stuck:
  "foldl (\<lambda>acc item. case fst acc of
                         Some e \<Rightarrow> acc
                       | None \<Rightarrow> (case processItem env resp item (snd acc) of
                                    Inl e \<Rightarrow> (Some e, snd acc)
                                  | Inr st' \<Rightarrow> (None, st'))) (Some e, st) items = (Some e, st)"
  by (induction items) simp_all

lemma tryItems_foldl:
  "tryItems env resp items st =
     foldl (\<lambda>acc item. case fst acc of
                         Some e \<Rightarrow> acc
                       | None \<Rightarrow> (case processItem env resp item (snd acc) of
                                    Inl e \<Rightarrow> (Some e, snd acc)
                                  | Inr st' \<Rightarrow> (None, st'))) (None, st) items"
proof (induction items arbitrary: st)
  case Nil
  then show ?case by simp
next
  case (Cons item rest)
  show ?case
  proof (cases "processItem env resp item st")
    case (Inl e)
    then show ?thesis by (simp add: foldl_tryStep_stuck)
  next
    case (Inr st')
    with Cons.IH [of st'] show ?thesis by simp
  qed
qed

lemma processBatches_foldl:
  "processBatches env batches st = foldl (\<lambda>st batch. processOneBatch env batch st) st batches"
  by (induction batches arbitrary: st) simp_all


text \<open>
  C5. For a positive batch size, the drained list is the queue ordered by
  \<open>created_at\<close>, oldest first (sorted, and a permutation of the table); the
  batching loop returns batches whose concatenation is the drained list, each
  non-empty and of at most the batch size; \<open>sync\<close> handles those batches one after
  the other, first to last, each starting from the state the one before left;
  and within a batch the items are handled first to last: when the transmitter
  call throws, \<open>handleSyncError\<close> runs on each item in turn, and when it answers,
  each item is handled in turn until one throws, after which \<open>handleSyncError\<close> runs
  on each item of the batch in turn.
\<close>

theorem sync_batches_preserve_order:
  assumes "0 < SYNC_BATCH_SIZE env"
  shows "sorted (map q_created_at (drainQueue db)) \<and>
         mset (drainQueue db) = mset (sync_queue db) \<and>
         (\<exists>batches.
            groupBatches (SYNC_BATCH_SIZE env) (drainQueue db) 0 [] = Some batches \<and>
            concat batches = drainQueue db \<and>
            (\<forall>b \<in> set batches. length b \<le> SYNC_BATCH_SIZE env \<and> b \<noteq> []) \<and>
            sync env db =
              Some (foldl (\<lambda>st batch. processOneBatch env batch st)
                      (\<lparr> r_success = 0, r_failed = 0, r_conflicts = 0,
                         r_total = length (drainQueue db) \<rparr>, db) batches)) \<and>
         (transmit env batch = Inl batchError \<longrightarrow>
            processOneBatch env batch st =
              foldl (\<lambda>st item. ((fst st)\<lparr>r_failed := r_failed (fst st) + 1\<rparr>,
                                  handleSyncError item (message batchError)
                                    (CURRENT_TIMESTAMP env) (snd st))) st batch) \<and>
         (transmit env batch = Inr batchResponse \<longrightarrow>
            processOneBatch env batch st =
              (case foldl (\<lambda>acc item.
                             case fst acc of
                               Some e \<Rightarrow> acc
                             | None \<Rightarrow> (case processItem env batchResponse item (snd acc) of
                                          Inl e \<Rightarrow> (Some e, snd acc)
                                        | Inr st' \<Rightarrow> (None, st'))) (None, st) batch of
                 (None, st') \<Rightarrow> st'
               | (Some e, st') \<Rightarrow>
                   foldl (\<lambda>st item. ((fst st)\<lparr>r_failed := r_failed (fst st) + 1\<rparr>,
                                       handleSyncError item (message e)
                                         (CURRENT_TIMESTAMP env) (snd st))) st' batch))"
proof -
  let ?bs = "SYNC_BATCH_SIZE env"
  have "sorted (map q_created_at (drainQueue db))" by (simp add: drainQueue_def)
  moreover have "mset (drainQueue db) = mset (sync_queue db)" by (simp add: drainQueue_def)
  moreover have "groupBatches ?bs (drainQueue db) 0 [] = Some (consecutiveBatches ?bs (drainQueue db))"
    using assms by (simp add: groupBatches_eq)
  moreover have "concat (consecutiveBatches ?bs (drainQueue db)) = drainQueue db"
    using assms by (rule concat_consecutiveBatches)
  moreover have "\<forall>b \<in> set (consecutiveBatches ?bs (drainQueue db)). length b \<le> ?bs \<and> b \<noteq> []"
    using consecutiveBatches_sizes by blast
  moreover have "sync env db =
      Some (foldl (\<lambda>st batch. processOneBatch env batch st)
              (\<lparr> r_success = 0, r_failed = 0, r_conflicts = 0,
                 r_total = length (drainQueue db) \<rparr>, db) (consecutiveBatches ?bs (drainQueue db)))"
    using sync_eq [OF assms, of db] by (simp add: processBatches_foldl)
  ultimately have drain: "sorted (map q_created_at (drainQueue db)) \<and>
         mset (drainQueue db) = mset (sync_queue db) \<and>
         (\<exists>batches.
            groupBatches (SYNC_BATCH_SIZE env) (drainQueue db) 0 [] = Some batches \<and>
            concat batches = drainQueue db \<and>
            (\<forall>b \<in> set batches. length b \<le> SYNC_BATCH_SIZE env \<and> b \<noteq> []) \<and>
            sync env db =
              Some (foldl (\<lambda>st batch. processOneBatch env batch st)
                      (\<lparr> r_success = 0, r_failed = 0, r_conflicts = 0,
                         r_total = length (drainQueue db) \<rparr>, db) batches))"
    by blast
  have thrown: "transmit env batch = Inl batchError \<longrightarrow>
            processOneBatch env batch st =
              foldl (\<lambda>st item. ((fst st)\<lparr>r_failed := r_failed (fst st) + 1\<rparr>,
                                  handleSyncError item (message batchError)
                                    (CURRENT_TIMESTAMP env) (snd st))) st batch"
    by (simp add: processOneBatch_def failItems_foldl)
  have answered: "transmit env batch = Inr batchResponse \<longrightarrow>
            processOneBatch env batch st =
              (case foldl (\<lambda>acc item.
                             case fst acc of
                               Some e \<Rightarrow> acc
                             | None \<Rightarrow> (case processItem env batchResponse item (snd acc) of
                                          Inl e \<Rightarrow> (Some e, snd acc)
                                        | Inr st' \<Rightarrow> (None, st'))) (None, st) batch of
                 (None, st') \<Rightarrow> st'
               | (Some e, st') \<Rightarrow>
                   foldl (\<lambda>st item. ((fst st)\<lparr>r_failed := r_failed (fst st) + 1\<rparr>,
                                       handleSyncError item (message e)
                                         (CURRENT_TIMESTAMP env) (snd st))) st' batch)"
    by (simp add: processOneBatch_def tryItems_foldl failItems_foldl
        split: prod.split option.split)
  from drain thrown answered show ?thesis by (intro conjI) blast+
qed


theorem sync_batches_preserve_order_witness:
  "map q_id (drainQueue orderedDb) = [''Q1'', ''Q2'', ''Q3''] \<and>
   (\<exists>batches. groupBatches 2 (drainQueue orderedDb) 0 [] = Some batches \<and>
               map (map q_id) batches = [[''Q1'', ''Q2''], [''Q3'']]) \<and>
   sync orderEnv orderedDb =
     Some (\<lparr> r_success = 2, r_failed = 1, r_conflicts = 0, r_total = 3 \<rparr>,
           dbAfterSync orderEnv orderedDb) \<and>
   map t_sync_status (tasks (dbAfterSync orderEnv orderedDb)) = [''error''] \<and>
   map t_server_id (tasks (dbAfterSync orderEnv orderedDb)) = [Some ''srv-T1''] \<and>
   map q_id (sync_queue (dbAfterSync orderEnv orderedDb)) = [''Q3''] \<and>
   map q_retry_count (sync_queue (dbAfterSync orderEnv orderedDb)) = [3]"
proof -
  let ?i1 = "(queuedUpdate ''Q1'' ''T1'' ''2024-01-01 00:00:01'' 0)\<lparr>q_operation := Create\<rparr>"
  let ?i2 = "queuedUpdate ''Q2'' ''T2'' ''2024-01-01 00:00:02'' 0"
  let ?i3 = "queuedUpdate ''Q3'' ''T1'' ''2024-01-01 00:00:03'' 2"
  let ?now = "''2024-01-05 00:00:00''"
  let ?init = "\<lparr> r_success = 0, r_failed = 0, r_conflicts = 0, r_total = 3 \<rparr>"
  let ?resp = "\<lparr> results = [acknowledge ?i1, acknowledge ?i2] \<rparr>"
  let ?db1 = "deleteQueueItem ''Q2''
                (updateSyncStatus ''T2'' ''synced'' (e_data (acknowledge ?i2)) ?now
                  (deleteQueueItem ''Q1''
                    (updateSyncStatus ''T1'' ''synced'' (e_data (acknowledge ?i1)) ?now orderedDb)))"
  let ?r1 = "\<lparr> r_success = 2, r_failed = 0, r_conflicts = 0, r_total = 3 \<rparr>"
  let ?db2 = "handleSyncError ?i3 ''Network Error'' ?now ?db1"
  let ?r2 = "\<lparr> r_success = 2, r_failed = 1, r_conflicts = 0, r_total = 3 \<rparr>"
  have bs: "0 < SYNC_BATCH_SIZE orderEnv" by (simp add: orderEnv_def)
  have b: "SYNC_BATCH_SIZE orderEnv = 2" by (simp add: orderEnv_def)
  have c: "CURRENT_TIMESTAMP orderEnv = ?now" by (simp add: orderEnv_def offlineEnv_def)
  have q: "sync_queue orderedDb = [?i1, ?i2, ?i3]" by (simp add: orderedDb_def)
  have d: "drainQueue orderedDb = [?i1, ?i2, ?i3]"
    by (simp add: drainQueue_def q queuedUpdate_def)
  have g: "groupBatches 2 [?i1, ?i2, ?i3] 0 [] = Some [[?i1, ?i2], [?i3]]"
    by (simp add: groupBatches_eq numeral_2_eq_2)
  have t1: "transmit orderEnv [?i1, ?i2] = Inr ?resp"
    by (simp add: orderEnv_def queuedUpdate_def)
  have t2: "transmit orderEnv [?i3] = Inl (Error ''Network Error'')"
    by (simp add: orderEnv_def queuedUpdate_def)
  have f1: "findResponse ?resp ?i1 = Some (acknowledge ?i1)"
    by (simp add: findResponse_def acknowledge_def queuedUpdate_def)
  have f2: "findResponse ?resp ?i2 = Some (acknowledge ?i2)"
    by (simp add: findResponse_def acknowledge_def queuedUpdate_def)
  have ids: "q_id ?i1 = ''Q1''" "q_id ?i2 = ''Q2''" "q_task_id ?i1 = ''T1''" "q_task_id ?i2 = ''T2''"
    by (simp_all add: queuedUpdate_def)
  have ok: "truthy_bool (e_success (acknowledge ?i1))" "truthy_bool (e_success (acknowledge ?i2))"
    by (simp_all add: acknowledge_def)
  have p1: "processOneBatch orderEnv [?i1, ?i2] (?init, orderedDb) = (?r1, ?db1)"
    using t1 sync_batches_preserve_order [OF bs, where db = orderedDb and batch = "[?i1, ?i2]"
        and batchResponse = ?resp and st = "(?init, orderedDb)"]
    by (simp add: processItem_def f1 f2 ok ids c Let_def)
  have p2: "processOneBatch orderEnv [?i3] (?r1, ?db1) = (?r2, ?db2)"
    using t2 sync_batches_preserve_order [OF bs, where db = orderedDb and batch = "[?i3]"
        and batchError = "Error ''Network Error''" and st = "(?r1, ?db1)"]
    by (simp add: c)
  have len: "length [?i1, ?i2, ?i3] = 3" by simp
  from sync_batches_preserve_order [OF bs, of orderedDb]
  obtain batches where "groupBatches 2 [?i1, ?i2, ?i3] 0 [] = Some batches"
    and "sync orderEnv orderedDb =
           Some (foldl (\<lambda>st batch. processOneBatch orderEnv batch st) (?init, orderedDb) batches)"
    unfolding b d len by blast
  then have "sync orderEnv orderedDb =
           Some (foldl (\<lambda>st batch. processOneBatch orderEnv batch st) (?init, orderedDb)
                   [[?i1, ?i2], [?i3]])"
    unfolding g by simp
  then have s: "sync orderEnv orderedDb = Some (?r2, ?db2)"
    by (simp only: foldl_Cons foldl_Nil p1 p2)
  have a: "dbAfterSync orderEnv orderedDb = ?db2" by (simp add: dbAfterSync_def s)
  have q2: "sync_queue ?db2 =
              [?i3\<lparr>q_retry_count := 3, q_error_message := Some ''Network Error'',
                     q_status := Some ''failed'', q_updated_at := Some ?now\<rparr>]"
    by (simp add: handleSyncError_queue deleteQueueItem_def updateSyncStatus_def q MAX_RETRIES_def
        queuedUpdate_def)
  have ts: "map t_sync_status (tasks ?db2) = [''error''] \<and>
            map t_server_id (tasks ?db2) = [Some ''srv-T1'']"
    by (simp add: handleSyncError_tasks deleteQueueItem_def updateSyncStatus_def MAX_RETRIES_def
        queuedUpdate_def orderedDb_def createTask_def acknowledge_def noFields_def Let_def)
  have gb: "\<exists>batches. groupBatches 2 (drainQueue orderedDb) 0 [] = Some batches \<and>
               map (map q_id) batches = [[''Q1'', ''Q2''], [''Q3'']]"
    unfolding d g by (simp add: queuedUpdate_def)
  have di: "map q_id (drainQueue orderedDb) = [''Q1'', ''Q2'', ''Q3'']"
    unfolding d by (simp add: queuedUpdate_def)
  show ?thesis
    unfolding a using di gb s q2 ts by (simp add: queuedUpdate_def)
qed

lemma consecutiveBatches_short:
  "xs \<noteq> [] \<Longrightarrow> length xs \<le> bs \<Longrightarrow> consecutiveBatches bs xs = [xs]"
proof -
  assume ne: "xs \<noteq> []" and le: "length xs \<le> bs"
  then obtain y ys where xs: "xs = y # ys" by (cases xs) auto
  with le obtain n where n: "bs = Suc n" by (cases bs) auto
  with le xs show ?thesis by simp
qed

text \<open>
  C6. If the call of the batch transmitter for a batch throws, \<open>handleSyncError\<close> is
  run on every item of the batch, in order, with the exception's message, the
  \<open>failed\<close> count grows by the size of the batch, and the \<open>success\<close> and
  \<open>conflicts\<close> counts stay as they were.
\<close>

theorem batch_failure_fails_every_item:
  assumes "transmit env batch = Inl batchError"
  shows "processOneBatch env batch (result, db) =
           (result\<lparr>r_failed := r_failed result + length batch\<rparr>,
            foldl (\<lambda>d item. handleSyncError item (message batchError) (CURRENT_TIMESTAMP env) d)
              db batch) \<and>
         r_success (fst (processOneBatch env batch (result, db))) = r_success result \<and>
         r_conflicts (fst (processOneBatch env batch (result, db))) = r_conflicts result"
  using assms by (simp add: processOneBatch_def failItems_eq)

theorem batch_failure_fails_every_item_witness:
  "r_failed (fst (processOneBatch offlineEnv (sync_queue threeQueued)
      (\<lparr> r_success = 0, r_failed = 0, r_conflicts = 0, r_total = 3 \<rparr>, threeQueued))) = 3 \<and>
   r_success (fst (processOneBatch offlineEnv (sync_queue threeQueued)
      (\<lparr> r_success = 0, r_failed = 0, r_conflicts = 0, r_total = 3 \<rparr>, threeQueued))) = 0 \<and>
   r_conflicts (fst (processOneBatch offlineEnv (sync_queue threeQueued)
      (\<lparr> r_success = 0, r_failed = 0, r_conflicts = 0, r_total = 3 \<rparr>, threeQueued))) = 0 \<and>
   map q_retry_count (sync_queue (snd (processOneBatch offlineEnv (sync_queue threeQueued)
      (\<lparr> r_success = 0, r_failed = 0, r_conflicts = 0, r_total = 3 \<rparr>, threeQueued)))) = [1, 1, 1] \<and>
   map q_error_message (sync_queue (snd (processOneBatch offlineEnv (sync_queue threeQueued)
      (\<lparr> r_success = 0, r_failed = 0, r_conflicts = 0, r_total = 3 \<rparr>, threeQueued)))) =
     [Some ''Network Error'', Some ''Network Error'', Some ''Network Error'']"
proof -
  have t: "transmit offlineEnv (sync_queue threeQueued) = Inl (Error ''Network Error'')"
    by (simp add: offlineEnv_def)
  note e = batch_failure_fails_every_item [OF t,
      of "\<lparr> r_success = 0, r_failed = 0, r_conflicts = 0, r_total = 3 \<rparr>" threeQueued,
      THEN conjunct1]
  show ?thesis
    unfolding e
    by (simp add: threeQueued_def queuedUpdate_def handleSyncError_def MAX_RETRIES_def
        offlineEnv_def)
qed

lemma or_else_simps [simp]:
  "or_else None d = d" "or_else (Some []) d = d" "s \<noteq> [] \<Longrightarrow> or_else (Some s) d = s"
  by (simp_all add: or_else_def)

text \<open>
  C7. When the batch response has no entry for an item, the item is handled as an
  error with the message \<open>"Unknown error"\<close>: the \<open>failed\<close> count grows by one, the
  item's row stays in the queue with \<open>retry_count\<close> one above the drained value and
  the message stored, and when that count reaches 3 the row gets status
  \<open>'failed'\<close> and the task \<open>'error'\<close>. An entry that reports neither success nor
  conflict is handled the same way, with the entry's own error message when it has
  a non-empty one and \<open>"Unknown error"\<close> otherwise.
\<close>

theorem missing_entry_is_unknown_error:
  "(findResponse batchResponse item = None \<longrightarrow>
      (\<exists>db'. processItem env batchResponse item (result, db) =
                 Inr (result\<lparr>r_failed := r_failed result + 1\<rparr>, db') \<and>
             sync_queue db' =
               map (\<lambda>q. if q_id q = q_id item
                         then q\<lparr>q_retry_count := q_retry_count item + 1,
                                q_error_message := Some ''Unknown error'',
                                q_status := (if 3 \<le> q_retry_count item + 1 then Some ''failed''
                                             else q_status q),
                                q_updated_at := Some (CURRENT_TIMESTAMP env)\<rparr>
                         else q) (sync_queue db) \<and>
             tasks db' =
               (if 3 \<le> q_retry_count item + 1
                then map (\<lambda>t. if t_id t = q_task_id item then t\<lparr>t_sync_status := ''error''\<rparr>
                               else t) (tasks db)
                else tasks db))) \<and>
   (findResponse batchResponse item = Some responseItem \<and>
    \<not> truthy_bool (e_success responseItem) \<and> \<not> truthy_bool (e_conflict responseItem) \<longrightarrow>
      (\<exists>db'. processItem env batchResponse item (result, db) =
                 Inr (result\<lparr>r_failed := r_failed result + 1\<rparr>, db') \<and>
             sync_queue db' =
               map (\<lambda>q. if q_id q = q_id item
                         then q\<lparr>q_retry_count := q_retry_count item + 1,
                                q_error_message :=
                                  Some (if truthy_string (e_error responseItem)
                                        then the (e_error responseItem) else ''Unknown error''),
                                q_status := (if 3 \<le> q_retry_count item + 1 then Some ''failed''
                                             else q_status q),
                                q_updated_at := Some (CURRENT_TIMESTAMP env)\<rparr>
                         else q) (sync_queue db) \<and>
             tasks db' =
               (if 3 \<le> q_retry_count item + 1
                then map (\<lambda>t. if t_id t = q_task_id item then t\<lparr>t_sync_status := ''error''\<rparr>
                               else t) (tasks db)
                else tasks db)))"
proof (intro conjI impI)
  assume "findResponse batchResponse item = None"
  then have "processItem env batchResponse item (result, db) =
        Inr (result\<lparr>r_failed := r_failed result + 1\<rparr>,
             handleSyncError item ''Unknown error'' (CURRENT_TIMESTAMP env) db)"
    by (simp add: processItem_def)
  then show "\<exists>db'. processItem env batchResponse item (result, db) =
                 Inr (result\<lparr>r_failed := r_failed result + 1\<rparr>, db') \<and>
             sync_queue db' =
               map (\<lambda>q. if q_id q = q_id item
                         then q\<lparr>q_retry_count := q_retry_count item + 1,
                                q_error_message := Some ''Unknown error'',
                                q_status := (if 3 \<le> q_retry_count item + 1 then Some ''failed''
                                             else q_status q),
                                q_updated_at := Some (CURRENT_TIMESTAMP env)\<rparr>
                         else q) (sync_queue db) \<and>
             tasks db' =
               (if 3 \<le> q_retry_count item + 1
                then map (\<lambda>t. if t_id t = q_task_id item then t\<lparr>t_sync_status := ''error''\<rparr>
                               else t) (tasks db)
                else tasks db)"
    by (simp add: handleSyncError_queue handleSyncError_tasks MAX_RETRIES_def)
next
  let ?msg = "if truthy_string (e_error responseItem)
              then the (e_error responseItem) else ''Unknown error''"
  assume "findResponse batchResponse item = Some responseItem \<and>
    \<not> truthy_bool (e_success responseItem) \<and> \<not> truthy_bool (e_conflict responseItem)"
  then have "processItem env batchResponse item (result, db) =
        Inr (result\<lparr>r_failed := r_failed result + 1\<rparr>,
             handleSyncError item ?msg (CURRENT_TIMESTAMP env) db)"
    by (simp add: processItem_def or_else_def)
  then show "\<exists>db'. processItem env batchResponse item (result, db) =
                 Inr (result\<lparr>r_failed := r_failed result + 1\<rparr>, db') \<and>
             sync_queue db' =
               map (\<lambda>q. if q_id q = q_id item
                         then q\<lparr>q_retry_count := q_retry_count item + 1,
                                q_error_message := Some ?msg,
                                q_status := (if 3 \<le> q_retry_count item + 1 then Some ''failed''
                                             else q_status q),
                                q_updated_at := Some (CURRENT_TIMESTAMP env)\<rparr>
                         else q) (sync_queue db) \<and>
             tasks db' =
               (if 3 \<le> q_retry_count item + 1
                then map (\<lambda>t. if t_id t = q_task_id item then t\<lparr>t_sync_status := ''error''\<rparr>
                               else t) (tasks db)
                else tasks db)"
    by (simp add: handleSyncError_queue handleSyncError_tasks MAX_RETRIES_def)
qed

theorem missing_entry_is_unknown_error_witness:
  "(\<exists>db'. processItem offlineEnv \<lparr> results = [] \<rparr> (hd (sync_queue failedTwice))
             (\<lparr> r_success = 0, r_failed = 0, r_conflicts = 0, r_total = 1 \<rparr>, failedTwice) =
           Inr (\<lparr> r_success = 0, r_failed = 1, r_conflicts = 0, r_total = 1 \<rparr>, db') \<and>
         map q_id (sync_queue db') = [''Q1''] \<and>
         map q_retry_count (sync_queue db') = [3] \<and>
         map q_error_message (sync_queue db') = [Some ''Unknown error''] \<and>
         map q_status (sync_queue db') = [Some ''failed''] \<and>
         map t_sync_status (tasks db') = [''error'']) \<and>
   (\<exists>db'. processItem offlineEnv
             \<lparr> results = [(acknowledge (hd (sync_queue pendingCreate)))\<lparr>e_success := None\<rparr>] \<rparr>
             (hd (sync_queue pendingCreate))
             (\<lparr> r_success = 0, r_failed = 0, r_conflicts = 0, r_total = 1 \<rparr>, pendingCreate) =
           Inr (\<lparr> r_success = 0, r_failed = 1, r_conflicts = 0, r_total = 1 \<rparr>, db') \<and>
         map q_id (sync_queue db') = [''Q1''] \<and>
         map q_retry_count (sync_queue db') = [1] \<and>
         map q_error_message (sync_queue db') = [Some ''Unknown error''] \<and>
         map q_status (sync_queue db') = [None] \<and>
         map t_sync_status (tasks db') = [''pending''])"
proof -
  let ?item = "queuedUpdate ''Q1'' ''T1'' ''2024-01-01 00:00:00'' 2"
  let ?fresh = "(queuedUpdate ''Q1'' ''T1'' ''2024-01-01 00:00:00'' 0)\<lparr>q_operation := Create\<rparr>"
  let ?entry = "(acknowledge ?fresh)\<lparr>e_success := None\<rparr>"
  let ?init = "\<lparr> r_success = 0, r_failed = 0, r_conflicts = 0, r_total = 1 \<rparr>"
  have q: "sync_queue failedTwice = [?item]" by (simp add: failedTwice_def)
  have q0: "sync_queue pendingCreate = [?fresh]" by (simp add: pendingCreate_def)
  have t: "map t_sync_status (tasks failedTwice) = [''pending''] \<and>
           map t_id (tasks failedTwice) = [''T1'']"
    by (simp add: failedTwice_def createTask_def Let_def)
  have t0: "map t_sync_status (tasks pendingCreate) = [''pending'']"
    by (simp add: pendingCreate_def createTask_def Let_def)
  have n: "findResponse \<lparr> results = [] \<rparr> ?item = None"
    by (simp add: findResponse_def)
  have s: "findResponse \<lparr> results = [?entry] \<rparr> ?fresh = Some ?entry \<and>
           \<not> truthy_bool (e_success ?entry) \<and> \<not> truthy_bool (e_conflict ?entry)"
    by (simp add: findResponse_def acknowledge_def)
  have e: "\<not> truthy_string (e_error ?entry)" by (simp add: acknowledge_def)
  from n missing_entry_is_unknown_error [where batchResponse = "\<lparr> results = [] \<rparr>"
        and item = ?item and env = offlineEnv and result = ?init and db = failedTwice]
  obtain db1 where p1: "processItem offlineEnv \<lparr> results = [] \<rparr> ?item (?init, failedTwice) =
                 Inr (?init\<lparr>r_failed := r_failed ?init + 1\<rparr>, db1)"
    and q1: "sync_queue db1 =
               map (\<lambda>q. if q_id q = q_id ?item
                         then q\<lparr>q_retry_count := q_retry_count ?item + 1,
                                q_error_message := Some ''Unknown error'',
                                q_status := (if 3 \<le> q_retry_count ?item + 1 then Some ''failed''
                                             else q_status q),
                                q_updated_at := Some (CURRENT_TIMESTAMP offlineEnv)\<rparr>
                         else q) (sync_queue failedTwice)"
    and t1: "tasks db1 =
               (if 3 \<le> q_retry_count ?item + 1
                then map (\<lambda>t. if t_id t = q_task_id ?item then t\<lparr>t_sync_status := ''error''\<rparr>
                               else t) (tasks failedTwice)
                else tasks failedTwice)"
    by blast
  from s missing_entry_is_unknown_error [where batchResponse = "\<lparr> results = [?entry] \<rparr>"
        and item = ?fresh and responseItem = ?entry and env = offlineEnv and result = ?init
        and db = pendingCreate]
  obtain db2 where p2: "processItem offlineEnv \<lparr> results = [?entry] \<rparr> ?fresh (?init, pendingCreate) =
                 Inr (?init\<lparr>r_failed := r_failed ?init + 1\<rparr>, db2)"
    and q2: "sync_queue db2 =
               map (\<lambda>q. if q_id q = q_id ?fresh
                         then q\<lparr>q_retry_count := q_retry_count ?fresh + 1,
                                q_error_message :=
                                  Some (if truthy_string (e_error ?entry)
                                        then the (e_error ?entry) else ''Unknown error''),
                                q_status := (if 3 \<le> q_retry_count ?fresh + 1 then Some ''failed''
                                             else q_status q),
                                q_updated_at := Some (CURRENT_TIMESTAMP offlineEnv)\<rparr>
                         else q) (sync_queue pendingCreate)"
    and t2: "tasks db2 =
               (if 3 \<le> q_retry_count ?fresh + 1
                then map (\<lambda>t. if t_id t = q_task_id ?fresh then t\<lparr>t_sync_status := ''error''\<rparr>
                               else t) (tasks pendingCreate)
                else tasks pendingCreate)"
    by blast
  have r1: "map q_id (sync_queue db1) = [''Q1''] \<and>
         map q_retry_count (sync_queue db1) = [3] \<and>
         map q_error_message (sync_queue db1) = [Some ''Unknown error''] \<and>
         map q_status (sync_queue db1) = [Some ''failed''] \<and>
         map t_sync_status (tasks db1) = [''error'']"
    unfolding q1 t1 q using t
    by (simp add: queuedUpdate_def failedTwice_def createTask_def Let_def)
  have r2: "map q_id (sync_queue db2) = [''Q1''] \<and>
         map q_retry_count (sync_queue db2) = [1] \<and>
         map q_error_message (sync_queue db2) = [Some ''Unknown error''] \<and>
         map q_status (sync_queue db2) = [None] \<and>
         map t_sync_status (tasks db2) = [''pending'']"
    unfolding q2 t2 q0 using t0 e
    by (simp add: queuedUpdate_def)
  from p1 r1 have w1: "\<exists>db'. processItem offlineEnv \<lparr> results = [] \<rparr> (hd (sync_queue failedTwice))
             (?init, failedTwice) =
           Inr (\<lparr> r_success = 0, r_failed = 1, r_conflicts = 0, r_total = 1 \<rparr>, db') \<and>
         map q_id (sync_queue db') = [''Q1''] \<and>
         map q_retry_count (sync_queue db') = [3] \<and>
         map q_error_message (sync_queue db') = [Some ''Unknown error''] \<and>
         map q_status (sync_queue db') = [Some ''failed''] \<and>
         map t_sync_status (tasks db') = [''error'']"
    unfolding q by (intro exI [of _ db1]) simp
  from p2 r2 have w2: "\<exists>db'. processItem offlineEnv
             \<lparr> results = [(acknowledge (hd (sync_queue pendingCreate)))\<lparr>e_success := None\<rparr>] \<rparr>
             (hd (sync_queue pendingCreate)) (?init, pendingCreate) =
           Inr (\<lparr> r_success = 0, r_failed = 1, r_conflicts = 0, r_total = 1 \<rparr>, db') \<and>
         map q_id (sync_queue db') = [''Q1''] \<and>
         map q_retry_count (sync_queue db') = [1] \<and>
         map q_error_message (sync_queue db') = [Some ''Unknown error''] \<and>
         map q_status (sync_queue db') = [None] \<and>
         map t_sync_status (tasks db') = [''pending'']"
    unfolding q0 by (intro exI [of _ db2]) simp
  from w1 w2 show ?thesis by (rule conjI)
qed

lemma processItem_success:
  assumes "findResponse batchResponse item = Some responseItem"
    and "truthy_bool (e_success responseItem)"
  shows "processItem env batchResponse item (result, db) =
           Inr (result\<lparr>r_success := r_success result + 1\<rparr>,
                deleteQueueItem (q_id item)
                  (updateSyncStatus (q_task_id item) ''synced'' (e_data responseItem)
                     (CURRENT_TIMESTAMP env) db))"
  using assms by (simp add: processItem_def)

lemma updateSyncStatus_synced:
  assumes "t \<in> set (tasks (updateSyncStatus taskId ''synced'' serverData now db))"
    and "t_id t = taskId"
  shows "t_sync_status t = ''synced'' \<and> t_last_synced_at t = Some now \<and>
         (\<forall>sd. serverData = Some sd \<and> truthy_string (p_id sd) \<longrightarrow> t_server_id t = p_id sd)"
proof -
  from assms(1) obtain t0 where t0: "t0 \<in> set (tasks db)"
    and t: "t = (if t_id t0 = taskId
                 then (let t1 = t0\<lparr>t_sync_status := ''synced''\<rparr>;
                           t2 = (case serverData of None \<Rightarrow> t1
                                 | Some sd \<Rightarrow> if truthy_string (p_id sd)
                                              then t1\<lparr>t_server_id := p_id sd\<rparr> else t1)
                       in t2\<lparr>t_last_synced_at := Some now\<rparr>)
                 else t0)"
    by (auto simp: updateSyncStatus_def)
  show ?thesis
  proof (cases "t_id t0 = taskId")
    case True
    with t show ?thesis by (cases serverData) (simp_all add: Let_def)
  next
    case False
    with t assms(2) show ?thesis by simp
  qed
qed

lemma updateSyncStatus_ids:
  "map t_id (tasks (updateSyncStatus taskId status serverData now db)) = map t_id (tasks db)"
proof -
  have "tasks (updateSyncStatus taskId status serverData now db) =
          map (\<lambda>t. if t_id t = taskId
                    then (\<lambda>t. let t1 = t\<lparr>t_sync_status := status\<rparr>;
                              t2 = (case serverData of None \<Rightarrow> t1
                                    | Some sd \<Rightarrow> if truthy_string (p_id sd)
                                                 then t1\<lparr>t_server_id := p_id sd\<rparr> else t1)
                          in if status = ''synced'' then t2\<lparr>t_last_synced_at := Some now\<rparr>
                             else t2) t
                    else t) (tasks db)"
    by (simp add: updateSyncStatus_def)
  then show ?thesis
    by (simp only:, intro map_key_map_if) (simp add: Let_def split: option.splits)
qed

text \<open>
  The success branch, for a response entry that is found: handling the item sets
  \<open>sync_status\<close> of the task it refers to to \<open>'synced'\<close> and its \<open>last_synced_at\<close>
  to the current timestamp, sets its \<open>server_id\<close> to the id in the entry's data
  when the data carries a non-empty one, removes the item from the queue, and adds
  one to the \<open>success\<close> count; and a one-item queue whose transmitter answers with
  such an entry gives \<open>{success: 1, failed: 0, conflicts: 0, total: 1}\<close>.
\<close>

lemma success_entry_syncs_task:
  "(findResponse batchResponse item = Some responseItem \<and> truthy_bool (e_success responseItem) \<longrightarrow>
      (\<exists>db'. processItem env batchResponse item (result, db) =
                 Inr (result\<lparr>r_success := r_success result + 1\<rparr>, db') \<and>
             (\<forall>t \<in> set (tasks db'). t_id t = q_task_id item \<longrightarrow>
                t_sync_status t = ''synced'' \<and>
                t_last_synced_at t = Some (CURRENT_TIMESTAMP env) \<and>
                (\<forall>sd. e_data responseItem = Some sd \<and> truthy_string (p_id sd) \<longrightarrow>
                   t_server_id t = p_id sd)) \<and>
             map t_id (tasks db') = map t_id (tasks db) \<and>
             sync_queue db' = filter (\<lambda>q. q_id q \<noteq> q_id item) (sync_queue db))) \<and>
   (0 < SYNC_BATCH_SIZE env \<and> sync_queue db = [item] \<and>
    transmit env [item] = Inr batchResponse \<and>
    findResponse batchResponse item = Some responseItem \<and> truthy_bool (e_success responseItem) \<longrightarrow>
      (\<exists>db'. sync env db =
                 Some (\<lparr> r_success = 1, r_failed = 0, r_conflicts = 0, r_total = 1 \<rparr>, db') \<and>
             sync_queue db' = [] \<and>
             map t_id (tasks db') = map t_id (tasks db) \<and>
             (\<forall>t \<in> set (tasks db'). t_id t = q_task_id item \<longrightarrow> t_sync_status t = ''synced'')))"
proof (intro conjI impI)
  let ?db' = "deleteQueueItem (q_id item)
                (updateSyncStatus (q_task_id item) ''synced'' (e_data responseItem)
                   (CURRENT_TIMESTAMP env) db)"
  have tasks': "tasks ?db' = tasks (updateSyncStatus (q_task_id item) ''synced''
                                      (e_data responseItem) (CURRENT_TIMESTAMP env) db)"
    by (simp add: deleteQueueItem_def)
  have props: "\<forall>t \<in> set (tasks ?db'). t_id t = q_task_id item \<longrightarrow>
                t_sync_status t = ''synced'' \<and>
                t_last_synced_at t = Some (CURRENT_TIMESTAMP env) \<and>
                (\<forall>sd. e_data responseItem = Some sd \<and> truthy_string (p_id sd) \<longrightarrow>
                   t_server_id t = p_id sd)"
    unfolding tasks' using updateSyncStatus_synced by blast
  have ids: "map t_id (tasks ?db') = map t_id (tasks db)"
    unfolding tasks' by (rule updateSyncStatus_ids)
  have queue: "sync_queue ?db' = filter (\<lambda>q. q_id q \<noteq> q_id item) (sync_queue db)"
    by (simp add: deleteQueueItem_def updateSyncStatus_def)
  {
    assume a: "findResponse batchResponse item = Some responseItem \<and>
               truthy_bool (e_success responseItem)"
    then have "processItem env batchResponse item (result, db) =
                 Inr (result\<lparr>r_success := r_success result + 1\<rparr>, ?db')"
      by (simp add: processItem_success)
    with props ids queue
    show "\<exists>db'. processItem env batchResponse item (result, db) =
                 Inr (result\<lparr>r_success := r_success result + 1\<rparr>, db') \<and>
             (\<forall>t \<in> set (tasks db'). t_id t = q_task_id item \<longrightarrow>
                t_sync_status t = ''synced'' \<and>
                t_last_synced_at t = Some (CURRENT_TIMESTAMP env) \<and>
                (\<forall>sd. e_data responseItem = Some sd \<and> truthy_string (p_id sd) \<longrightarrow>
                   t_server_id t = p_id sd)) \<and>
             map t_id (tasks db') = map t_id (tasks db) \<and>
             sync_queue db' = filter (\<lambda>q. q_id q \<noteq> q_id item) (sync_queue db)"
      by blast
  }
  {
    assume a: "0 < SYNC_BATCH_SIZE env \<and> sync_queue db = [item] \<and>
               transmit env [item] = Inr batchResponse \<and>
               findResponse batchResponse item = Some responseItem \<and>
               truthy_bool (e_success responseItem)"
    let ?init = "\<lparr> r_success = 0, r_failed = 0, r_conflicts = 0, r_total = 1 \<rparr>"
    from a have d: "drainQueue db = [item]" by (simp add: drainQueue_def)
    from a have b: "consecutiveBatches (SYNC_BATCH_SIZE env) [item] = [[item]]"
      by (simp add: consecutiveBatches_short)
    from a have p: "processItem env batchResponse item (?init, db) =
                      Inr (?init\<lparr>r_success := r_success ?init + 1\<rparr>, ?db')"
      by (simp add: processItem_success)
    from a have "sync env db = Some (processBatches env [[item]] (?init, db))"
      using sync_eq [of env db] by (simp add: d b)
    also have "processBatches env [[item]] (?init, db) =
                 (\<lparr> r_success = 1, r_failed = 0, r_conflicts = 0, r_total = 1 \<rparr>, ?db')"
      using a p by (simp add: processOneBatch_def)
    finally have s: "sync env db =
                 Some (\<lparr> r_success = 1, r_failed = 0, r_conflicts = 0, r_total = 1 \<rparr>, ?db')" .
    from a queue have q: "sync_queue ?db' = []" by simp
    from s q ids props
    show "\<exists>db'. sync env db =
                 Some (\<lparr> r_success = 1, r_failed = 0, r_conflicts = 0, r_total = 1 \<rparr>, db') \<and>
             sync_queue db' = [] \<and>
             map t_id (tasks db') = map t_id (tasks db) \<and>
             (\<forall>t \<in> set (tasks db'). t_id t = q_task_id item \<longrightarrow> t_sync_status t = ''synced'')"
      by blast
  }
qed


lemma success_entry_syncs_task_example:
  "sync onlineEnv pendingCreate =
     Some (\<lparr> r_success = 1, r_failed = 0, r_conflicts = 0, r_total = 1 \<rparr>,
           dbAfterSync onlineEnv pendingCreate) \<and>
   sync_queue (dbAfterSync onlineEnv pendingCreate) = [] \<and>
   map t_sync_status (tasks (dbAfterSync onlineEnv pendingCreate)) = [''synced''] \<and>
   (\<exists>db'. processItem onlineEnv \<lparr> results = map acknowledge (sync_queue pendingCreate) \<rparr>
             (hd (sync_queue pendingCreate))
             (\<lparr> r_success = 0, r_failed = 0, r_conflicts = 0, r_total = 1 \<rparr>, pendingCreate) =
           Inr (\<lparr> r_success = 1, r_failed = 0, r_conflicts = 0, r_total = 1 \<rparr>, db') \<and>
         map t_sync_status (tasks db') = [''synced''] \<and>
         map t_server_id (tasks db') = [Some ''srv-T1''] \<and>
         map t_last_synced_at (tasks db') = [Some ''2024-01-05 00:00:00''] \<and>
         sync_queue db' = [])"
proof -
  let ?item = "(queuedUpdate ''Q1'' ''T1'' ''2024-01-01 00:00:00'' 0)\<lparr>q_operation := Create\<rparr>"
  let ?resp = "\<lparr> results = [acknowledge ?item] \<rparr>"
  let ?init = "\<lparr> r_success = 0, r_failed = 0, r_conflicts = 0, r_total = 1 \<rparr>"
  have q: "sync_queue pendingCreate = [?item]" by (simp add: pendingCreate_def)
  have ids: "map t_id (tasks pendingCreate) = [''T1'']"
    by (simp add: pendingCreate_def createTask_def Let_def)
  have tid: "q_task_id ?item = ''T1''" and qid: "q_id ?item = ''Q1''"
    by (simp_all add: queuedUpdate_def)
  have h: "0 < SYNC_BATCH_SIZE onlineEnv \<and> sync_queue pendingCreate = [?item] \<and>
           transmit onlineEnv [?item] = Inr ?resp \<and>
           findResponse ?resp ?item = Some (acknowledge ?item) \<and>
           truthy_bool (e_success (acknowledge ?item))"
    by (simp add: onlineEnv_def offlineEnv_def q findResponse_def acknowledge_def)
  have d: "e_data (acknowledge ?item) = Some (noFields\<lparr>p_id := Some ''srv-T1''\<rparr>)"
    by (simp add: acknowledge_def queuedUpdate_def)
  have c: "CURRENT_TIMESTAMP onlineEnv = ''2024-01-05 00:00:00''"
    by (simp add: onlineEnv_def offlineEnv_def)
  note inst = success_entry_syncs_task [where env = onlineEnv and db = pendingCreate
      and item = ?item and batchResponse = ?resp and responseItem = "acknowledge ?item"
      and result = ?init]
  from inst h obtain db1 where s: "sync onlineEnv pendingCreate =
        Some (\<lparr> r_success = 1, r_failed = 0, r_conflicts = 0, r_total = 1 \<rparr>, db1)"
    and q1: "sync_queue db1 = []" and i1: "map t_id (tasks db1) = map t_id (tasks pendingCreate)"
    and p1: "\<forall>t \<in> set (tasks db1). t_id t = q_task_id ?item \<longrightarrow> t_sync_status t = ''synced''"
    by blast
  from s have a: "dbAfterSync onlineEnv pendingCreate = db1" by (simp add: dbAfterSync_def)
  from i1 p1 have st1: "map t_sync_status (tasks db1) = [''synced'']"
    unfolding ids tid by auto
  from inst h obtain db2 where e: "processItem onlineEnv ?resp ?item (?init, pendingCreate) =
        Inr (?init\<lparr>r_success := r_success ?init + 1\<rparr>, db2)"
    and p2: "\<forall>t \<in> set (tasks db2). t_id t = q_task_id ?item \<longrightarrow>
                t_sync_status t = ''synced'' \<and>
                t_last_synced_at t = Some (CURRENT_TIMESTAMP onlineEnv) \<and>
                (\<forall>sd. e_data (acknowledge ?item) = Some sd \<and> truthy_string (p_id sd) \<longrightarrow>
                   t_server_id t = p_id sd)"
    and i2: "map t_id (tasks db2) = map t_id (tasks pendingCreate)"
    and q2: "sync_queue db2 = filter (\<lambda>q. q_id q \<noteq> q_id ?item) (sync_queue pendingCreate)"
    by blast
  from q2 have q2': "sync_queue db2 = []" by (simp add: q)
  from i2 obtain t where t: "tasks db2 = [t]" "t_id t = ''T1''"
    unfolding ids by auto
  with p2 have "t_sync_status t = ''synced'' \<and> t_last_synced_at t = Some ''2024-01-05 00:00:00'' \<and>
                t_server_id t = Some ''srv-T1''"
    unfolding tid c d by (simp add: noFields_def)
  with t have st2: "map t_sync_status (tasks db2) = [''synced''] \<and>
         map t_server_id (tasks db2) = [Some ''srv-T1''] \<and>
         map t_last_synced_at (tasks db2) = [Some ''2024-01-05 00:00:00'']"
    by simp
  from e have e': "processItem onlineEnv \<lparr> results = map acknowledge (sync_queue pendingCreate) \<rparr>
             (hd (sync_queue pendingCreate)) (?init, pendingCreate) =
           Inr (\<lparr> r_success = 1, r_failed = 0, r_conflicts = 0, r_total = 1 \<rparr>, db2)"
    by (simp add: q)
  show ?thesis
    unfolding a using s q1 st1 e' st2 q2' by (intro conjI exI [of _ db2]) simp_all
qed

text \<open>
  With the body the source gives \<open>processBatch\<close>, no entry of the response carries
  a \<open>localId\<close>, so no queue item finds its entry: a pass that uses it handles
  every item as \<open>"Unknown error"\<close>.
\<close>

lemma findResponse_processBatch: "findResponse (processBatch items) item = None"
  by (simp add: findResponse_def processBatch_def find_map_None)

lemma tryItems_processBatch:
  "tryItems env (processBatch batch) items st =
     (None, failItems ''Unknown error'' (CURRENT_TIMESTAMP env) items st)"
proof (induction items arbitrary: st)
  case Nil
  then show ?case by simp
next
  case (Cons item rest)
  have "processItem env (processBatch batch) item st =
          Inr ((fst st)\<lparr>r_failed := r_failed (fst st) + 1\<rparr>,
               handleSyncError item ''Unknown error'' (CURRENT_TIMESTAMP env) (snd st))"
    by (simp add: processItem_def findResponse_processBatch Let_def)
  with Cons.IH show ?case by simp
qed

lemma processOneBatch_processBatch:
  "transmit env batch = Inr (processBatch batch) \<Longrightarrow>
     processOneBatch env batch st = failItems ''Unknown error'' (CURRENT_TIMESTAMP env) batch st"
  by (simp add: processOneBatch_def tryItems_processBatch)

text \<open>
  C8. The claim fails on the service as shipped. \<open>processBatch\<close> answers
  \<open>success: true\<close> for the one queued \<open>create\<close>, but \<open>sync\<close> looks the entry up by
  \<open>localId\<close>, which the answer does not carry: the result is \<open>{success: 0,
  failed: 1, conflicts: 0, total: 1}\<close>, the item stays in the queue with
  \<open>retry_count = 1\<close> and \<open>"Unknown error"\<close>, and the task stays \<open>'pending'\<close>.
\<close>

theorem shipped_sync_never_acknowledges:
  "map e_success (results (processBatch (sync_queue pendingCreate))) = [Some True] \<and>
   sync shippedEnv pendingCreate =
     Some (\<lparr> r_success = 0, r_failed = 1, r_conflicts = 0, r_total = 1 \<rparr>,
           dbAfterSync shippedEnv pendingCreate) \<and>
   map q_id (sync_queue (dbAfterSync shippedEnv pendingCreate)) = [''Q1''] \<and>
   map q_retry_count (sync_queue (dbAfterSync shippedEnv pendingCreate)) = [1] \<and>
   map q_error_message (sync_queue (dbAfterSync shippedEnv pendingCreate)) =
     [Some ''Unknown error''] \<and>
   map t_sync_status (tasks (dbAfterSync shippedEnv pendingCreate)) = [''pending'']"
proof -
  let ?item = "(queuedUpdate ''Q1'' ''T1'' ''2024-01-01 00:00:00'' 0)\<lparr>q_operation := Create\<rparr>"
  let ?now = "''2024-01-05 00:00:00''"
  let ?init = "\<lparr> r_success = 0, r_failed = 0, r_conflicts = 0, r_total = 1 \<rparr>"
  let ?db1 = "handleSyncError ?item ''Unknown error'' ?now pendingCreate"
  have bs: "0 < SYNC_BATCH_SIZE shippedEnv" by (simp add: shippedEnv_def offlineEnv_def)
  have c: "CURRENT_TIMESTAMP shippedEnv = ?now" by (simp add: shippedEnv_def offlineEnv_def)
  have tr: "transmit shippedEnv [?item] = Inr (processBatch [?item])"
    by (simp add: shippedEnv_def)
  have q: "sync_queue pendingCreate = [?item]" by (simp add: pendingCreate_def)
  have d: "drainQueue pendingCreate = [?item]" by (simp add: drainQueue_def q)
  have b: "consecutiveBatches (SYNC_BATCH_SIZE shippedEnv) [?item] = [[?item]]"
    using bs by (simp add: consecutiveBatches_short)
  have s: "sync shippedEnv pendingCreate =
             Some (\<lparr> r_success = 0, r_failed = 1, r_conflicts = 0, r_total = 1 \<rparr>, ?db1)"
    using sync_eq [OF bs, of pendingCreate]
    by (simp add: d b processOneBatch_processBatch [OF tr] c)
  have a: "dbAfterSync shippedEnv pendingCreate = ?db1" by (simp add: dbAfterSync_def s)
  have e: "map e_success (results (processBatch (sync_queue pendingCreate))) = [Some True]"
    by (simp add: q processBatch_def)
  have r: "map q_id (sync_queue ?db1) = [''Q1''] \<and>
           map q_retry_count (sync_queue ?db1) = [1] \<and>
           map q_error_message (sync_queue ?db1) = [Some ''Unknown error''] \<and>
           map t_sync_status (tasks ?db1) = [''pending'']"
    by (simp add: handleSyncError_queue handleSyncError_tasks q MAX_RETRIES_def queuedUpdate_def
        pendingCreate_def createTask_def Let_def)
  show ?thesis unfolding a using e s r by simp
qed


text \<open>
  A success is also not kept when a later item of the same batch throws. The
  update of \<open>T1\<close> is acknowledged and handled as a success; the delete of \<open>T2\<close>,
  answered as a conflict, throws on its payload's missing \<open>updated_at\<close>; the
  \<open>catch\<close> block then runs \<open>handleSyncError\<close> on both items: \<open>T1\<close> ends \<open>'error'\<close>
  and the result counts one success and two failures for two items.
\<close>

lemma success_then_later_throw:
  "map e_success (results (projr (transmit mixedEnv (sync_queue mixedDb)))) = [Some True, None] \<and>
   sync mixedEnv mixedDb =
     Some (\<lparr> r_success = 1, r_failed = 2, r_conflicts = 0, r_total = 2 \<rparr>,
           dbAfterSync mixedEnv mixedDb) \<and>
   map t_id (tasks (dbAfterSync mixedEnv mixedDb)) = [''T1'', ''T2''] \<and>
   map t_sync_status (tasks (dbAfterSync mixedEnv mixedDb)) = [''error'', ''pending''] \<and>
   map q_id (sync_queue (dbAfterSync mixedEnv mixedDb)) = [''Q2''] \<and>
   map q_error_message (sync_queue (dbAfterSync mixedEnv mixedDb)) = [Some ''Invalid time value'']"
proof -
  let ?i1 = "queuedUpdate ''Q1'' ''T1'' ''2024-01-01 00:00:01'' 2"
  let ?i2 = "(queuedUpdate ''Q2'' ''T2'' ''2024-01-01 00:00:02'' 0)
               \<lparr>q_operation := Delete, q_data := ''{}''\<rparr>"
  let ?now = "''2024-01-05 00:00:00''"
  let ?resp = "\<lparr> results = [acknowledge ?i1, conflictEntry ?i2] \<rparr>"
  let ?init = "\<lparr> r_success = 0, r_failed = 0, r_conflicts = 0, r_total = 2 \<rparr>"
  let ?db1 = "deleteQueueItem ''Q1''
                (updateSyncStatus ''T1'' ''synced'' (e_data (acknowledge ?i1)) ?now mixedDb)"
  let ?db2 = "handleSyncError ?i2 ''Invalid time value'' ?now
                (handleSyncError ?i1 ''Invalid time value'' ?now ?db1)"
  have bs: "0 < SYNC_BATCH_SIZE mixedEnv" by (simp add: mixedEnv_def offlineEnv_def)
  have c: "CURRENT_TIMESTAMP mixedEnv = ?now" by (simp add: mixedEnv_def offlineEnv_def)
  have q: "sync_queue mixedDb = [?i1, ?i2]" by (simp add: mixedDb_def)
  have d: "drainQueue mixedDb = [?i1, ?i2]" by (simp add: drainQueue_def q queuedUpdate_def)
  have b: "consecutiveBatches (SYNC_BATCH_SIZE mixedEnv) [?i1, ?i2] = [[?i1, ?i2]]"
    by (rule consecutiveBatches_short) (simp_all add: mixedEnv_def offlineEnv_def)
  have tr: "transmit mixedEnv [?i1, ?i2] = Inr ?resp"
    by (simp add: mixedEnv_def queuedUpdate_def)
  have p1: "processItem mixedEnv ?resp ?i1 (?init, mixedDb) =
              Inr (\<lparr> r_success = 1, r_failed = 0, r_conflicts = 0, r_total = 2 \<rparr>, ?db1)"
    by (simp add: processItem_def findResponse_def acknowledge_def queuedUpdate_def c)
  have p2: "processItem mixedEnv ?resp ?i2
              (\<lparr> r_success = 1, r_failed = 0, r_conflicts = 0, r_total = 2 \<rparr>, ?db1) =
              Inl (RangeError ''Invalid time value'')"
    by (simp add: processItem_def findResponse_def acknowledge_def conflictEntry_def
        queuedUpdate_def mixedEnv_def resolveConflict_def timeOf_def noFields_def)
  have t: "tryItems mixedEnv ?resp [?i1, ?i2] (?init, mixedDb) =
             (Some (RangeError ''Invalid time value''),
              (\<lparr> r_success = 1, r_failed = 0, r_conflicts = 0, r_total = 2 \<rparr>, ?db1))"
    by (simp only: tryItems.simps p1 p2 sum.case)
  have po: "processOneBatch mixedEnv [?i1, ?i2] (?init, mixedDb) =
              failItems ''Invalid time value'' ?now [?i1, ?i2]
                (\<lparr> r_success = 1, r_failed = 0, r_conflicts = 0, r_total = 2 \<rparr>, ?db1)"
    by (simp only: processOneBatch_def tr t c sum.case prod.case option.case message.simps)
  have fi: "failItems ''Invalid time value'' ?now [?i1, ?i2]
                (\<lparr> r_success = 1, r_failed = 0, r_conflicts = 0, r_total = 2 \<rparr>, ?db1) =
              (\<lparr> r_success = 1, r_failed = 2, r_conflicts = 0, r_total = 2 \<rparr>, ?db2)"
    by simp
  have len: "length [?i1, ?i2] = 2" by simp
  have "sync mixedEnv mixedDb = Some (processBatches mixedEnv [[?i1, ?i2]] (?init, mixedDb))"
    using sync_eq [OF bs, of mixedDb] unfolding d b len .
  then have s: "sync mixedEnv mixedDb =
             Some (\<lparr> r_success = 1, r_failed = 2, r_conflicts = 0, r_total = 2 \<rparr>, ?db2)"
    by (simp only: processBatches.simps po fi)
  have a: "dbAfterSync mixedEnv mixedDb = ?db2" by (simp add: dbAfterSync_def s)
  have e: "map e_success (results (projr (transmit mixedEnv (sync_queue mixedDb)))) =
             [Some True, None]"
    by (simp add: q tr acknowledge_def conflictEntry_def)
  have r: "map t_id (tasks ?db2) = [''T1'', ''T2''] \<and>
           map t_sync_status (tasks ?db2) = [''error'', ''pending''] \<and>
           map q_id (sync_queue ?db2) = [''Q2''] \<and>
           map q_error_message (sync_queue ?db2) = [Some ''Invalid time value'']"
    by (simp add: handleSyncError_queue handleSyncError_tasks deleteQueueItem_def
        updateSyncStatus_def q MAX_RETRIES_def queuedUpdate_def mixedDb_def twoTasks_def
        createTask_def emptyDb_def acknowledge_def noFields_def Let_def)
  show ?thesis unfolding a using e s r by simp
qed

lemma sync_single_failure:
  assumes "0 < SYNC_BATCH_SIZE env" and "sync_queue db = [item]"
    and "transmit env [item] = Inl batchError"
  shows "sync env db =
           Some (\<lparr> r_success = 0, r_failed = 1, r_conflicts = 0, r_total = 1 \<rparr>,
                 handleSyncError item (message batchError) (CURRENT_TIMESTAMP env) db)"
proof -
  from assms have d: "drainQueue db = [item]" by (simp add: drainQueue_def)
  from assms have b: "consecutiveBatches (SYNC_BATCH_SIZE env) [item] = [[item]]"
    by (simp add: consecutiveBatches_short)
  show ?thesis
    using assms sync_eq [of env db] by (simp add: d b processOneBatch_def)
qed

lemma drainQueue_set: "set (drainQueue db) = set (sync_queue db)"
  by (simp add: drainQueue_def)

text \<open>
  C2. \<open>handleSyncError\<close> does the bookkeeping the claim describes
  (\<open>handleSyncError_queue\<close>, \<open>handleSyncError_tasks\<close>), but the item that reached the
  ceiling is not out of retry: \<open>sync\<close> drains every row of the queue, whatever its
  \<open>status\<close>. An item that has failed twice fails a third time: it gets
  \<open>retry_count = 3\<close> and \<open>status = 'failed'\<close>, and the task gets \<open>'error'\<close>. The next
  pass drains it again, hands it to the transmitter again, and leaves it with
  \<open>retry_count = 4\<close>.
\<close>

theorem failed_item_is_drained_again:
  "sync offlineEnv failedTwice =
     Some (\<lparr> r_success = 0, r_failed = 1, r_conflicts = 0, r_total = 1 \<rparr>,
           dbAfterSync offlineEnv failedTwice) \<and>
   map q_retry_count (sync_queue (dbAfterSync offlineEnv failedTwice)) = [3] \<and>
   map q_status (sync_queue (dbAfterSync offlineEnv failedTwice)) = [Some ''failed''] \<and>
   map t_sync_status (tasks (dbAfterSync offlineEnv failedTwice)) = [''error''] \<and>
   map q_id (drainQueue (dbAfterSync offlineEnv failedTwice)) = [''Q1''] \<and>
   sync offlineEnv (dbAfterSync offlineEnv failedTwice) =
     Some (\<lparr> r_success = 0, r_failed = 1, r_conflicts = 0, r_total = 1 \<rparr>,
           dbAfterSync offlineEnv (dbAfterSync offlineEnv failedTwice)) \<and>
   map q_retry_count (sync_queue (dbAfterSync offlineEnv (dbAfterSync offlineEnv failedTwice))) = [4]"
proof -
  let ?item = "queuedUpdate ''Q1'' ''T1'' ''2024-01-01 00:00:00'' 2"
  let ?now = "''2024-01-05 00:00:00''"
  let ?db1 = "handleSyncError ?item ''Network Error'' ?now failedTwice"
  let ?item1 = "?item\<lparr>q_retry_count := 3, q_error_message := Some ''Network Error'',
                        q_status := Some ''failed'', q_updated_at := Some ?now\<rparr>"
  let ?db2 = "handleSyncError ?item1 ''Network Error'' ?now ?db1"
  have bs: "0 < SYNC_BATCH_SIZE offlineEnv" by (simp add: offlineEnv_def)
  have tr: "\<And>b. transmit offlineEnv b = Inl (Error ''Network Error'')"
    by (simp add: offlineEnv_def)
  have c: "CURRENT_TIMESTAMP offlineEnv = ?now" by (simp add: offlineEnv_def)
  have q0: "sync_queue failedTwice = [?item]" by (simp add: failedTwice_def)
  have q1: "sync_queue ?db1 = [?item1]"
    by (simp add: handleSyncError_queue q0 MAX_RETRIES_def queuedUpdate_def)
  have t1: "map t_sync_status (tasks ?db1) = [''error'']"
    by (simp add: handleSyncError_tasks MAX_RETRIES_def queuedUpdate_def failedTwice_def
        createTask_def Let_def)
  have q2: "map q_retry_count (sync_queue ?db2) = [4]"
    by (simp add: handleSyncError_queue q0 MAX_RETRIES_def queuedUpdate_def)
  have s1: "sync offlineEnv failedTwice =
     Some (\<lparr> r_success = 0, r_failed = 1, r_conflicts = 0, r_total = 1 \<rparr>, ?db1)"
    using sync_single_failure [OF bs q0 tr] by (simp add: c)
  have s2: "sync offlineEnv ?db1 =
     Some (\<lparr> r_success = 0, r_failed = 1, r_conflicts = 0, r_total = 1 \<rparr>, ?db2)"
    using sync_single_failure [OF bs q1 tr] by (simp add: c)
  have a1: "dbAfterSync offlineEnv failedTwice = ?db1" by (simp add: dbAfterSync_def s1)
  have a2: "dbAfterSync offlineEnv ?db1 = ?db2" by (simp add: dbAfterSync_def s2)
  have d1: "map q_id (drainQueue ?db1) = [''Q1'']"
    unfolding drainQueue_def q1 by (simp add: queuedUpdate_def)
  show ?thesis
    unfolding a1 a2 using s1 s2 q1 t1 q2 d1 by (simp add: queuedUpdate_def)
qed

section \<open>The queue invariant along a pass\<close>

text \<open>
  The empty queue holds at most one item per (task id, operation) pair, and so does
  the queue after any step of a pass: \<open>handleSyncError\<close> rewrites rows in place,
  \<open>DELETE\<close> removes rows, and the task updates do not touch the queue.
\<close>

lemma queue_unique_emptyDb: "queue_unique emptyDb"
  by (simp add: queue_unique_def emptyDb_def)

lemma queue_unique_handleSyncError:
  "queue_unique (handleSyncError item msg now db) = queue_unique db"
proof -
  have "map (\<lambda>q. (q_task_id q, q_operation q)) (sync_queue (handleSyncError item msg now db)) =
        map (\<lambda>q. (q_task_id q, q_operation q)) (sync_queue db)"
    unfolding handleSyncError_queue by (rule map_key_map_if) simp
  then show ?thesis by (simp only: queue_unique_def)
qed

lemma queue_unique_deleteQueueItem:
  "queue_unique db \<Longrightarrow> queue_unique (deleteQueueItem ident db)"
  by (simp add: queue_unique_def deleteQueueItem_def distinct_map_filter)

lemma queue_unique_same_queue:
  "sync_queue db' = sync_queue db \<Longrightarrow> queue_unique db' = queue_unique db"
  by (simp add: queue_unique_def)

lemma sync_queue_updateSyncStatus [simp]:
  "sync_queue (updateSyncStatus taskId status serverData now db) = sync_queue db"
  by (simp add: updateSyncStatus_def)

lemma sync_queue_updateTask [simp]:
  "sync_queue (snd (updateTask ident updates now db)) = sync_queue db"
  by (simp add: updateTask_def Let_def split: option.splits)

lemma queue_unique_processItem:
  assumes "processItem env resp item st = Inr st'" and "queue_unique (snd st)"
  shows "queue_unique (snd st')"
proof -
  have d: "\<And>db. sync_queue db = sync_queue (snd st) \<Longrightarrow> queue_unique (deleteQueueItem (q_id item) db)"
    using assms(2) queue_unique_same_queue queue_unique_deleteQueueItem by blast
  have h: "\<And>msg. queue_unique (handleSyncError item msg (CURRENT_TIMESTAMP env) (snd st))"
    using assms(2) by (simp add: queue_unique_handleSyncError)
  from assms(1) show ?thesis
    by (auto simp: processItem_def Let_def d h split: option.splits sum.splits if_splits)
qed

lemma queue_unique_tryItems:
  "queue_unique (snd st) \<Longrightarrow> queue_unique (snd (snd (tryItems env resp items st)))"
proof (induction items arbitrary: st)
  case Nil
  then show ?case by simp
next
  case (Cons item rest)
  show ?case
  proof (cases "processItem env resp item st")
    case (Inl e)
    with Cons.prems show ?thesis by simp
  next
    case (Inr st')
    with Cons.IH [of st'] queue_unique_processItem [OF Inr Cons.prems] show ?thesis by simp
  qed
qed

lemma queue_unique_failItems:
  "queue_unique (snd st) \<Longrightarrow> queue_unique (snd (failItems msg now items st))"
  by (induction items arbitrary: st) (simp_all add: queue_unique_handleSyncError)

lemma queue_unique_processOneBatch:
  assumes "queue_unique (snd st)"
  shows "queue_unique (snd (processOneBatch env batch st))"
proof (cases "transmit env batch")
  case (Inl e)
  with assms show ?thesis by (simp add: processOneBatch_def queue_unique_failItems)
next
  case (Inr resp)
  obtain err st' where t: "tryItems env resp batch st = (err, st')"
    by (cases "tryItems env resp batch st")
  then have "queue_unique (snd st')"
    using queue_unique_tryItems [OF assms, of env resp batch] by simp
  with Inr t show ?thesis
    by (cases err) (simp_all add: processOneBatch_def queue_unique_failItems)
qed

lemma queue_unique_processBatches:
  "queue_unique (snd st) \<Longrightarrow> queue_unique (snd (processBatches env batches st))"
  by (induction batches arbitrary: st) (simp_all add: queue_unique_processOneBatch)

lemma queue_unique_sync:
  assumes "queue_unique db" and "sync env db = Some (result, db')"
  shows "queue_unique db'"
proof (cases "drainQueue db = []")
  case True
  with assms show ?thesis by (simp add: sync_def)
next
  case False
  with assms(2) obtain batches where
    "processBatches env batches
       (\<lparr> r_success = 0, r_failed = 0, r_conflicts = 0, r_total = length (drainQueue db) \<rparr>, db)
     = (result, db')"
    by (auto simp: sync_def Let_def split: option.splits)
  then have "db' = snd (processBatches env batches
       (\<lparr> r_success = 0, r_failed = 0, r_conflicts = 0, r_total = length (drainQueue db) \<rparr>, db))"
    by simp
  with assms(1) show ?thesis by (simp add: queue_unique_processBatches)
qed

end
